theory Spec2Isabelle
  imports Main "HOL-Library.Word" "HOL-Library.Sublist"
begin

unbundle bit_operations_syntax

section \<open>Identity mapping (sftp_server.cpp, anonymous namespace)\<close>

text \<open>
  A C++ \<open>int\<close> and a \<open>uint32_t\<close> are both 32-bit words; the conversions between
  them keep the bit pattern, and the identity mapping only compares ids for equality.
\<close>

type_synonym c_int = "32 word"
type_synonym id_mappings = "(c_int \<times> c_int) list"

text \<open>
  The two sentinels \<open>mp::no_id_info_available\<close> and \<open>mp::default_id\<close> are
  declared in a header that is not part of the surveyed sources; they are parameters.
\<close>

record id_consts =
  no_id_info_available :: c_int
  default_id :: c_int

text \<open>
  \<open>std::find_if\<close> over a vector: the iterator is the index of the first element that
  satisfies the predicate, \<open>end()\<close> is the length.
\<close>

fun find_if :: "('a \<Rightarrow> bool) \<Rightarrow> 'a list \<Rightarrow> nat" where
  "find_if P [] = 0"
| "find_if P (x # xs) = (if P x then 0 else Suc (find_if P xs))"

definition mapped_id_for :: "id_consts \<Rightarrow> id_mappings \<Rightarrow> c_int \<Rightarrow> c_int \<Rightarrow> c_int" where
  "mapped_id_for K id_maps ident id_if_not_found =
     (if ident = no_id_info_available K then id_if_not_found
      else
        let map_it = find_if (\<lambda>p. ident = fst p) id_maps in
        if map_it \<noteq> length id_maps then
          (if snd (id_maps ! map_it) = default_id K then id_if_not_found
           else snd (id_maps ! map_it))
        else ident)"

definition reverse_id_for :: "id_mappings \<Rightarrow> c_int \<Rightarrow> c_int \<Rightarrow> c_int" where
  "reverse_id_for id_maps ident rev_id_if_not_found =
     (let found = find_if (\<lambda>p. ident = snd p) id_maps in
      if found = length id_maps then rev_id_if_not_found else fst (id_maps ! found))"

section \<open>Path confinement\<close>

text \<open>
  \<open>char_traits<char>::compare\<close> on the first \<open>n\<close> characters of two strings: the
  bytes are compared as unsigned values.
\<close>

fun traits_compare :: "string \<Rightarrow> string \<Rightarrow> nat \<Rightarrow> int" where
  "traits_compare (x # xs) (y # ys) (Suc n) =
     (if (of_char x :: nat) < of_char y then - 1
      else if (of_char y :: nat) < of_char x then 1
      else traits_compare xs ys n)"
| "traits_compare _ _ _ = 0"

text \<open>
  \<open>std::string::compare(pos, len, str)\<close>, for \<open>pos\<close> within the string (the only
  call passes 0): the substring of at most \<open>len\<close> characters from \<open>pos\<close> is compared
  with \<open>str\<close>, first by content over the common length, then by length.
\<close>

definition string_compare :: "string \<Rightarrow> nat \<Rightarrow> nat \<Rightarrow> string \<Rightarrow> int" where
  "string_compare s pos len str =
     (let rlen = min len (length s - pos);
          r = traits_compare (drop pos s) str (min rlen (length str))
      in if r \<noteq> 0 then r else int rlen - int (length str))"

definition validate_path :: "string \<Rightarrow> string \<Rightarrow> bool" where
  "validate_path source_path current_path =
     (if source_path = [] then False
      else string_compare current_path 0 (length source_path) source_path = 0)"

section \<open>Wire data\<close>

datatype status =
  SSH_FX_OK | SSH_FX_EOF | SSH_FX_NO_SUCH_FILE | SSH_FX_PERMISSION_DENIED
| SSH_FX_FAILURE | SSH_FX_BAD_MESSAGE | SSH_FX_OP_UNSUPPORTED

record sftp_attributes =
  attr_flags :: "32 word"
  attr_size :: "64 word"
  attr_uid :: "32 word"
  attr_gid :: "32 word"
  attr_permissions :: "32 word"
  attr_atime :: "32 word"
  attr_mtime :: "32 word"

definition zero_attr :: sftp_attributes where
  "zero_attr = \<lparr>attr_flags = 0, attr_size = 0, attr_uid = 0, attr_gid = 0,
                 attr_permissions = 0, attr_atime = 0, attr_mtime = 0\<rparr>"

datatype msg_type =
  SFTP_REALPATH | SFTP_OPENDIR | SFTP_MKDIR | SFTP_RMDIR | SFTP_LSTAT | SFTP_STAT
| SFTP_FSTAT | SFTP_READDIR | SFTP_CLOSE | SFTP_OPEN | SFTP_READ | SFTP_WRITE
| SFTP_RENAME | SFTP_REMOVE | SFTP_SETSTAT | SFTP_FSETSTAT | SFTP_READLINK
| SFTP_SYMLINK | SFTP_EXTENDED | SFTP_OTHER "8 word"

text \<open>
  A client message. \<open>msg_handle\<close> is the address that \<open>sftp_handle\<close> resolves the
  message's handle string to (the key of the handle tables); \<open>msg_submessage\<close> is
  \<open>None\<close> for a null pointer.
\<close>

record client_message =
  msg_type :: msg_type
  msg_filename :: string
  msg_data :: string
  msg_flags :: "32 word"
  msg_offset :: "64 word"
  msg_len :: "32 word"
  msg_attr :: sftp_attributes
  msg_handle :: nat
  msg_submessage :: "string option"

datatype reply =
  Reply_status status "string option"
| Reply_handle nat
| Reply_attr sftp_attributes
| Reply_names "(string \<times> string \<times> sftp_attributes) list"
| Reply_name string
| Reply_data string

definition reply_ok :: reply where
  "reply_ok = Reply_status SSH_FX_OK None"

definition reply_failure :: reply where
  "reply_failure = Reply_status SSH_FX_FAILURE None"

definition reply_perm_denied :: reply where
  "reply_perm_denied = Reply_status SSH_FX_PERMISSION_DENIED (Some ''permission denied'')"

definition reply_bad_handle :: "string \<Rightarrow> reply" where
  "reply_bad_handle type = Reply_status SSH_FX_BAD_MESSAGE (Some (type @ '': invalid handle''))"

definition reply_unsupported :: reply where
  "reply_unsupported = Reply_status SSH_FX_OP_UNSUPPORTED (Some ''Unsupported message'')"

section \<open>The host: file system, platform and library calls\<close>

text \<open>
  Every call that leaves the server (Qt file information, the file-operations and
  platform singletons, the allocator and the SFTP handle registry) is an element of
  \<open>call\<close>. A handler threads the list of calls made so far; the host answers a call
  as a function of that history, so no stability of the file system between two calls
  is assumed.
\<close>

datatype qkind =
  IsSymLink | Exists | IsDir | IsFile | Size | OwnerId | GroupId | Permissions
| LastRead | LastModified | SymLinkTarget | DirExists | IsReadable | EntryInfoList
| SymlinkAttr

datatype call =
  Query qkind string
| QDir_mkdir string
| FileOps_setPermissions string "32 word"
| Platform_chown string c_int c_int
| FileOps_rmdir string
| FileOps_open string "32 word"
| FileOps_remove string
| FileOps_rename string string
| FileOps_resize string "64 word"
| Platform_utime string "32 word" "32 word"
| Platform_symlink string string bool
| Platform_link string string
| FileOps_seek nat "64 word"
| FileOps_read nat "32 word"
| FileOps_write nat string "64 word"
| QFile_flush nat
| QFile_errorString nat
| Make_unique
| Sftp_handle_alloc nat
| Sftp_handle_remove nat

datatype answer =
  A_bool bool | A_int int | A_str string | A_list "string list"
| A_attr sftp_attributes | A_data int string

fun as_bool :: "answer \<Rightarrow> bool" where
  "as_bool (A_bool b) = b"
| "as_bool _ = False"

fun as_int :: "answer \<Rightarrow> int" where
  "as_int (A_int i) = i"
| "as_int _ = 0"

fun as_str :: "answer \<Rightarrow> string" where
  "as_str (A_str s) = s"
| "as_str _ = []"

fun as_list :: "answer \<Rightarrow> string list" where
  "as_list (A_list l) = l"
| "as_list _ = []"

fun as_attr :: "answer \<Rightarrow> sftp_attributes" where
  "as_attr (A_attr a) = a"
| "as_attr _ = zero_attr"

fun as_data :: "answer \<Rightarrow> int \<times> string" where
  "as_data (A_data r d) = (r, d)"
| "as_data _ = (0, [])"

text \<open>
  The host. \<open>answers\<close> gives the result of a call after a history; the other fields are
  the Qt functions that only rewrite a path or format a time: \<open>QFileInfo::path\<close>,
  \<open>QFileInfo::fileName\<close>, \<open>QFileInfo::absoluteFilePath\<close>,
  \<open>QDateTime::toString("MMM d hh:mm:ss yyyy")\<close> of a time in milliseconds, and
  \<open>QString(s).toStdString()\<close>, the UTF-8 decoding of a C string encoded again.
\<close>

record env =
  answers :: "call list \<Rightarrow> call \<Rightarrow> answer"
  qfi_path :: "string \<Rightarrow> string"
  qfi_fileName :: "string \<Rightarrow> string"
  qfi_absoluteFilePath :: "string \<Rightarrow> string"
  qdt_toString :: "int \<Rightarrow> string"
  qstring_toStdString :: "string \<Rightarrow> string"

definition call_bool :: "env \<Rightarrow> call \<Rightarrow> call list \<Rightarrow> bool \<times> call list" where
  "call_bool E c tr = (as_bool (answers E tr c), tr @ [c])"

definition call_int :: "env \<Rightarrow> call \<Rightarrow> call list \<Rightarrow> int \<times> call list" where
  "call_int E c tr = (as_int (answers E tr c), tr @ [c])"

definition call_str :: "env \<Rightarrow> call \<Rightarrow> call list \<Rightarrow> string \<times> call list" where
  "call_str E c tr = (as_str (answers E tr c), tr @ [c])"

definition call_list :: "env \<Rightarrow> call \<Rightarrow> call list \<Rightarrow> string list \<times> call list" where
  "call_list E c tr = (as_list (answers E tr c), tr @ [c])"

definition call_attr :: "env \<Rightarrow> call \<Rightarrow> call list \<Rightarrow> sftp_attributes \<times> call list" where
  "call_attr E c tr = (as_attr (answers E tr c), tr @ [c])"

definition call_data :: "env \<Rightarrow> call \<Rightarrow> call list \<Rightarrow> (int \<times> string) \<times> call list" where
  "call_data E c tr = (as_data (answers E tr c), tr @ [c])"

section \<open>The server\<close>

text \<open>
  A \<open>QFile\<close> is identified by its file name, a \<open>QFileInfo\<close> by the path it was made
  from. The two handle tables are keyed by the address of the owned object.
\<close>

record sftp_server =
  source_path :: string
  gid_mappings :: id_mappings
  uid_mappings :: id_mappings
  default_uid :: c_int
  default_gid :: c_int
  open_file_handles :: "nat \<rightharpoonup> string"
  open_dir_handles :: "nat \<rightharpoonup> string list"

definition handle_from :: "client_message \<Rightarrow> (nat \<rightharpoonup> 'a) \<Rightarrow> 'a option" where
  "handle_from msg handles = handles (msg_handle msg)"

definition mapped_uid_for :: "id_consts \<Rightarrow> sftp_server \<Rightarrow> c_int \<Rightarrow> c_int" where
  "mapped_uid_for K S uid = mapped_id_for K (uid_mappings S) uid (default_uid S)"

definition mapped_gid_for :: "id_consts \<Rightarrow> sftp_server \<Rightarrow> c_int \<Rightarrow> c_int" where
  "mapped_gid_for K S gid = mapped_id_for K (gid_mappings S) gid (default_gid S)"

definition reverse_uid_for :: "sftp_server \<Rightarrow> c_int \<Rightarrow> c_int \<Rightarrow> c_int" where
  "reverse_uid_for S uid rev_uid_if_not_found = reverse_id_for (uid_mappings S) uid rev_uid_if_not_found"

definition reverse_gid_for :: "sftp_server \<Rightarrow> c_int \<Rightarrow> c_int \<Rightarrow> c_int" where
  "reverse_gid_for S gid rev_gid_if_not_found = reverse_id_for (gid_mappings S) gid rev_gid_if_not_found"

section \<open>Permissions and attributes\<close>

text \<open>The \<open>Permissions\<close> enumeration of the server (octal 0400 down to 01).\<close>

definition read_user :: "32 word" where "read_user = 256"
definition write_user :: "32 word" where "write_user = 128"
definition exec_user :: "32 word" where "exec_user = 64"
definition read_group :: "32 word" where "read_group = 32"
definition write_group :: "32 word" where "write_group = 16"
definition exec_group :: "32 word" where "exec_group = 8"
definition read_other :: "32 word" where "read_other = 4"
definition write_other :: "32 word" where "write_other = 2"
definition exec_other :: "32 word" where "exec_other = 1"

text \<open>The values of \<open>QFileDevice::Permission\<close> (Qt).\<close>

definition ReadOwner :: "32 word" where "ReadOwner = 0x4000"
definition WriteOwner :: "32 word" where "WriteOwner = 0x2000"
definition ExeOwner :: "32 word" where "ExeOwner = 0x1000"
definition ReadUser :: "32 word" where "ReadUser = 0x0400"
definition WriteUser :: "32 word" where "WriteUser = 0x0200"
definition ExeUser :: "32 word" where "ExeUser = 0x0100"
definition ReadGroup :: "32 word" where "ReadGroup = 0x0040"
definition WriteGroup :: "32 word" where "WriteGroup = 0x0020"
definition ExeGroup :: "32 word" where "ExeGroup = 0x0010"
definition ReadOther :: "32 word" where "ReadOther = 0x0004"
definition WriteOther :: "32 word" where "WriteOther = 0x0002"
definition ExeOther :: "32 word" where "ExeOther = 0x0001"

text \<open>The values of \<open>QIODevice::OpenModeFlag\<close> (Qt).\<close>

definition NotOpen :: "32 word" where "NotOpen = 0"
definition ReadOnly :: "32 word" where "ReadOnly = 0x0001"
definition WriteOnly :: "32 word" where "WriteOnly = 0x0002"
definition Append :: "32 word" where "Append = 0x0004"
definition Truncate :: "32 word" where "Truncate = 0x0008"

text \<open>The SFTP version 3 constants of libssh: open flags, attribute flags, file types.\<close>

definition SSH_FXF_READ :: "32 word" where "SSH_FXF_READ = 0x01"
definition SSH_FXF_WRITE :: "32 word" where "SSH_FXF_WRITE = 0x02"
definition SSH_FXF_APPEND :: "32 word" where "SSH_FXF_APPEND = 0x04"
definition SSH_FXF_TRUNC :: "32 word" where "SSH_FXF_TRUNC = 0x10"

definition SSH_FILEXFER_ATTR_SIZE :: "32 word" where "SSH_FILEXFER_ATTR_SIZE = 0x01"
definition SSH_FILEXFER_ATTR_UIDGID :: "32 word" where "SSH_FILEXFER_ATTR_UIDGID = 0x02"
definition SSH_FILEXFER_ATTR_PERMISSIONS :: "32 word" where "SSH_FILEXFER_ATTR_PERMISSIONS = 0x04"
definition SSH_FILEXFER_ATTR_ACMODTIME :: "32 word" where "SSH_FILEXFER_ATTR_ACMODTIME = 0x08"

definition SSH_S_IFLNK :: "32 word" where "SSH_S_IFLNK = 0xA000"
definition SSH_S_IFDIR :: "32 word" where "SSH_S_IFDIR = 0x4000"
definition SSH_S_IFREG :: "32 word" where "SSH_S_IFREG = 0x8000"

definition has_flag :: "32 word \<Rightarrow> 32 word \<Rightarrow> bool" where
  "has_flag w f = (w AND f \<noteq> 0)"

definition to_qt_permissions :: "32 word \<Rightarrow> 32 word" where
  "to_qt_permissions perms =
     (if has_flag perms read_user then ReadUser else 0) OR
     (if has_flag perms write_user then WriteUser else 0) OR
     (if has_flag perms exec_user then ExeUser else 0) OR
     (if has_flag perms read_group then ReadGroup else 0) OR
     (if has_flag perms write_group then WriteGroup else 0) OR
     (if has_flag perms exec_group then ExeGroup else 0) OR
     (if has_flag perms read_other then ReadOther else 0) OR
     (if has_flag perms write_other then WriteOther else 0) OR
     (if has_flag perms exec_other then ExeOther else 0)"

definition to_unix_permissions :: "32 word \<Rightarrow> 32 word" where
  "to_unix_permissions perms =
     (if has_flag perms ReadOwner then read_user else 0) OR
     (if has_flag perms WriteOwner then write_user else 0) OR
     (if has_flag perms ExeOwner then exec_user else 0) OR
     (if has_flag perms ReadGroup then read_group else 0) OR
     (if has_flag perms WriteGroup then write_group else 0) OR
     (if has_flag perms ExeGroup then exec_group else 0) OR
     (if has_flag perms ReadOther then read_other else 0) OR
     (if has_flag perms WriteOther then write_other else 0) OR
     (if has_flag perms ExeOther then exec_other else 0)"

text \<open>Integer division of C++, which truncates towards zero.\<close>

definition c_div :: "int \<Rightarrow> int \<Rightarrow> int" where
  "c_div a b = sgn a * sgn b * (\<bar>a\<bar> div \<bar>b\<bar>)"

text \<open>Decimal output of \<open>fmt::format("{}", n)\<close>.\<close>

fun dec_digits :: "nat \<Rightarrow> string" where
  "dec_digits n =
     (if n < 10 then [char_of (48 + n)]
      else dec_digits (n div 10) @ [char_of (48 + n mod 10)])"

definition fmt_int :: "int \<Rightarrow> string" where
  "fmt_int i = (if i < 0 then CHR ''-'' # dec_digits (nat (- i)) else dec_digits (nat i))"

text \<open>
  \<open>longname_from\<close>: the type letter, nine permission characters, the link count 1, the
  owner, group and size in decimal, the time stamp and the file name.
\<close>

definition longname_from :: "env \<Rightarrow> string \<Rightarrow> string \<Rightarrow> call list \<Rightarrow> string \<times> call list" where
  "longname_from E file_info filename tr0 =
     (let (perms, tr) = call_int E (Query Permissions file_info) tr0;
          mode = (word_of_int perms :: 32 word);
          (sym, tr) = call_bool E (Query IsSymLink file_info) tr;
          (isdir, tr) = (if sym then (False, tr) else call_bool E (Query IsDir file_info) tr);
          out = (if sym then ''l'' else if isdir then ''d'' else ''-'')
              @ (if has_flag mode ReadOwner then ''r'' else ''-'')
              @ (if has_flag mode WriteOwner then ''w'' else ''-'')
              @ (if has_flag mode ExeOwner then ''x'' else ''-'')
              @ (if has_flag mode ReadGroup then ''r'' else ''-'')
              @ (if has_flag mode WriteGroup then ''w'' else ''-'')
              @ (if has_flag mode ExeGroup then ''x'' else ''-'')
              @ (if has_flag mode ReadOther then ''r'' else ''-'')
              @ (if has_flag mode WriteOther then ''w'' else ''-'')
              @ (if has_flag mode ExeOther then ''x'' else ''-'');
          (owner, tr) = call_int E (Query OwnerId file_info) tr;
          (grp, tr) = call_int E (Query GroupId file_info) tr;
          (sz, tr) = call_int E (Query Size file_info) tr;
          out = out @ '' 1 '' @ fmt_int owner @ '' '' @ fmt_int grp @ '' '' @ fmt_int sz;
          (modified, tr) = call_int E (Query LastModified file_info) tr;
          out = out @ '' '' @ qdt_toString E modified @ '' '' @ filename
      in (out, tr))"

text \<open>
  \<open>attr_from\<close>: size, forward-mapped owner and group, the unix permission bits with the
  file type, access and modification time in seconds, and the four attribute flags.
\<close>

definition attr_from ::
  "id_consts \<Rightarrow> sftp_server \<Rightarrow> env \<Rightarrow> string \<Rightarrow> call list \<Rightarrow> sftp_attributes \<times> call list" where
  "attr_from K S E file_info tr0 =
     (let (sz, tr) = call_int E (Query Size file_info) tr0;
          (owner, tr) = call_int E (Query OwnerId file_info) tr;
          (grp, tr) = call_int E (Query GroupId file_info) tr;
          (perms, tr) = call_int E (Query Permissions file_info) tr;
          (accessed, tr) = call_int E (Query LastRead file_info) tr;
          (modified, tr) = call_int E (Query LastModified file_info) tr;
          (sym, tr) = call_bool E (Query IsSymLink file_info) tr;
          (isdir, tr) = (if sym then (False, tr) else call_bool E (Query IsDir file_info) tr);
          (isfile, tr) = (if sym \<or> isdir then (False, tr) else call_bool E (Query IsFile file_info) tr);
          p = to_unix_permissions (word_of_int perms)
      in (\<lparr>attr_flags = SSH_FILEXFER_ATTR_SIZE OR SSH_FILEXFER_ATTR_UIDGID OR
                         SSH_FILEXFER_ATTR_PERMISSIONS OR SSH_FILEXFER_ATTR_ACMODTIME,
           attr_size = word_of_int sz,
           attr_uid = mapped_uid_for K S (word_of_int owner),
           attr_gid = mapped_gid_for K S (word_of_int grp),
           attr_permissions =
             (if sym then p OR (SSH_S_IFLNK OR 511)
              else if isdir then p OR SSH_S_IFDIR
              else if isfile then p OR SSH_S_IFREG
              else p),
           attr_atime = word_of_int (c_div accessed 1000),
           attr_mtime = word_of_int (c_div modified 1000)\<rparr>, tr))"

text \<open>
  The attributes of a symbolic link itself, from the platform's
  \<open>symlink_attr_from\<close>, with owner and group forward-mapped.
\<close>

definition symlink_attr ::
  "id_consts \<Rightarrow> sftp_server \<Rightarrow> env \<Rightarrow> string \<Rightarrow> call list \<Rightarrow> sftp_attributes \<times> call list" where
  "symlink_attr K S E path tr0 =
     (let (attr, tr) = call_attr E (Query SymlinkAttr path) tr0
      in (attr\<lparr>attr_uid := mapped_uid_for K S (attr_uid attr),
                attr_gid := mapped_gid_for K S (attr_gid attr)\<rparr>, tr))"

section \<open>The request handlers\<close>

text \<open>
  A handler takes the server, the host, the message and the calls made so far, and
  returns the reply it sends, the server afterwards and the extended list of calls.
  Log output is left out.
\<close>

type_synonym outcome = "reply \<times> sftp_server \<times> call list"

text \<open>
  \<open>std::unordered_map::emplace\<close> keeps an element that is already stored under the key.
\<close>

definition emplace :: "(nat \<rightharpoonup> 'a) \<Rightarrow> nat \<Rightarrow> 'a \<Rightarrow> (nat \<rightharpoonup> 'a)" where
  "emplace m k v = (if k \<in> dom m then m else m(k \<mapsto> v))"

definition erase :: "(nat \<rightharpoonup> 'a) \<Rightarrow> nat \<Rightarrow> nat \<times> (nat \<rightharpoonup> 'a)" where
  "erase m k = (if k \<in> dom m then (1, m(k := None)) else (0, m))"

definition handle_close :: "sftp_server \<Rightarrow> env \<Rightarrow> client_message \<Rightarrow> call list \<Rightarrow> outcome" where
  "handle_close S E msg tr =
     (let ident = msg_handle msg;
          (erased, files) = erase (open_file_handles S) ident;
          (erased_dirs, dirs) = erase (open_dir_handles S) ident;
          erased = erased + erased_dirs;
          S' = S\<lparr>open_file_handles := files, open_dir_handles := dirs\<rparr>
      in if erased = 0 then (reply_bad_handle ''close'', S', tr)
         else (reply_ok, S', tr @ [Sftp_handle_remove ident]))"

definition handle_fstat ::
  "id_consts \<Rightarrow> sftp_server \<Rightarrow> env \<Rightarrow> client_message \<Rightarrow> call list \<Rightarrow> outcome" where
  "handle_fstat K S E msg tr0 =
     (case handle_from msg (open_file_handles S) of
        None \<Rightarrow> (reply_bad_handle ''fstat'', S, tr0)
      | Some file \<Rightarrow>
          let (sym, tr) = call_bool E (Query IsSymLink file) tr0;
              (file_info, tr) = (if sym then call_str E (Query SymLinkTarget file) tr else (file, tr));
              (attr, tr) = attr_from K S E file_info tr
          in (Reply_attr attr, S, tr))"

definition handle_mkdir :: "sftp_server \<Rightarrow> env \<Rightarrow> client_message \<Rightarrow> call list \<Rightarrow> outcome" where
  "handle_mkdir S E msg tr0 =
     (let filename = msg_filename msg in
      if \<not> validate_path (source_path S) filename then (reply_perm_denied, S, tr0)
      else
        let (made, tr) = call_bool E (QDir_mkdir filename) tr0 in
        if \<not> made then (reply_failure, S, tr)
        else
          let (perm_set, tr) = call_bool E (FileOps_setPermissions filename
                                 (to_qt_permissions (attr_permissions (msg_attr msg)))) tr in
          if \<not> perm_set then (reply_failure, S, tr)
          else
            let parent_dir = qfi_path E filename;
                (owner, tr) = call_int E (Query OwnerId parent_dir) tr;
                rev_uid = reverse_uid_for S (attr_uid (msg_attr msg)) (word_of_int owner);
                (grp, tr) = call_int E (Query GroupId parent_dir) tr;
                rev_gid = reverse_gid_for S (attr_gid (msg_attr msg)) (word_of_int grp);
                (r, tr) = call_int E (Platform_chown filename rev_uid rev_gid) tr
            in if r < 0 then (reply_failure, S, tr) else (reply_ok, S, tr))"

definition handle_rmdir :: "sftp_server \<Rightarrow> env \<Rightarrow> client_message \<Rightarrow> call list \<Rightarrow> outcome" where
  "handle_rmdir S E msg tr0 =
     (let filename = msg_filename msg in
      if \<not> validate_path (source_path S) filename then (reply_perm_denied, S, tr0)
      else
        let (removed, tr) = call_bool E (FileOps_rmdir filename) tr0 in
        if \<not> removed then (reply_failure, S, tr) else (reply_ok, S, tr))"

text \<open>The access mode that \<open>handle_open\<close> computes from the SFTP open flags.\<close>

definition open_mode :: "32 word \<Rightarrow> 32 word" where
  "open_mode flags =
     (let mode = NotOpen;
          mode = (if has_flag flags SSH_FXF_READ then mode OR ReadOnly else mode);
          mode = (if has_flag flags SSH_FXF_WRITE
                  then (let mode = mode OR WriteOnly in
                        if flags = SSH_FXF_WRITE then mode OR Append else mode)
                  else mode);
          mode = (if has_flag flags SSH_FXF_APPEND then mode OR Append else mode);
          mode = (if has_flag flags SSH_FXF_TRUNC then mode OR Truncate else mode)
      in mode)"

definition handle_open :: "sftp_server \<Rightarrow> env \<Rightarrow> client_message \<Rightarrow> call list \<Rightarrow> outcome" where
  "handle_open S E msg tr0 =
     (let filename = msg_filename msg in
      if \<not> validate_path (source_path S) filename then (reply_perm_denied, S, tr0)
      else
        let mode = open_mode (msg_flags msg);
            (addr, tr) = call_int E Make_unique tr0;
            file = nat addr;
            (sym, tr) = call_bool E (Query IsSymLink filename) tr;
            (exists, tr) = (if sym then (True, tr) else call_bool E (Query Exists filename) tr);
            (opened, tr) = call_bool E (FileOps_open filename mode) tr
        in
        if \<not> opened then (reply_failure, S, tr)
        else
          let (created_ok, tr) =
                (if \<not> exists then
                   let (perm_set, tr) = call_bool E (FileOps_setPermissions filename
                                          (to_qt_permissions (attr_permissions (msg_attr msg)))) tr in
                   if \<not> perm_set then (False, tr)
                   else
                     let current_dir = qfi_path E filename;
                         (owner, tr) = call_int E (Query OwnerId current_dir) tr;
                         new_uid = reverse_uid_for S (attr_uid (msg_attr msg)) (word_of_int owner);
                         (grp, tr) = call_int E (Query GroupId current_dir) tr;
                         new_gid = reverse_gid_for S (attr_gid (msg_attr msg)) (word_of_int grp);
                         (r, tr) = call_int E (Platform_chown filename new_uid new_gid) tr
                     in (\<not> r < 0, tr)
                 else (True, tr))
          in
          if \<not> created_ok then (reply_failure, S, tr)
          else
            let (allocated, tr) = call_bool E (Sftp_handle_alloc file) tr in
            if \<not> allocated then (reply_failure, S, tr)
            else (Reply_handle file,
                  S\<lparr>open_file_handles := emplace (open_file_handles S) file filename\<rparr>, tr))"

definition handle_opendir :: "sftp_server \<Rightarrow> env \<Rightarrow> client_message \<Rightarrow> call list \<Rightarrow> outcome" where
  "handle_opendir S E msg tr0 =
     (let filename = msg_filename msg in
      if \<not> validate_path (source_path S) filename then (reply_perm_denied, S, tr0)
      else
        let (dir_exists, tr) = call_bool E (Query DirExists filename) tr0 in
        if \<not> dir_exists then (Reply_status SSH_FX_NO_SUCH_FILE (Some ''no such directory''), S, tr)
        else
          let (readable, tr) = call_bool E (Query IsReadable filename) tr in
          if \<not> readable then (reply_perm_denied, S, tr)
          else
            let (entries, tr) = call_list E (Query EntryInfoList filename) tr;
                (addr, tr) = call_int E Make_unique tr;
                entry_list = nat addr;
                (allocated, tr) = call_bool E (Sftp_handle_alloc entry_list) tr
            in
            if \<not> allocated then (reply_failure, S, tr)
            else (Reply_handle entry_list,
                  S\<lparr>open_dir_handles := emplace (open_dir_handles S) entry_list entries\<rparr>, tr))"

definition max_packet_size :: "32 word" where
  "max_packet_size = 65536"

definition handle_read :: "sftp_server \<Rightarrow> env \<Rightarrow> client_message \<Rightarrow> call list \<Rightarrow> outcome" where
  "handle_read S E msg tr0 =
     (case handle_from msg (open_file_handles S) of
        None \<Rightarrow> (reply_bad_handle ''read'', S, tr0)
      | Some file_name \<Rightarrow>
          let file = msg_handle msg;
              len = min (msg_len msg) max_packet_size;
              (sought, tr) = call_bool E (FileOps_seek file (msg_offset msg)) tr0
          in
          if \<not> sought then (reply_failure, S, tr)
          else
            let ((r, data), tr) = call_data E (FileOps_read file len) tr in
            if r < 0 then
              (let (err, tr) = call_str E (QFile_errorString file) tr
               in (Reply_status SSH_FX_FAILURE (Some err), S, tr))
            else if r = 0 then (Reply_status SSH_FX_EOF (Some ''End of file''), S, tr)
            else (Reply_data (take (nat r) data), S, tr))"

text \<open>
  The loop of \<open>handle_readdir\<close>: \<open>n\<close> times, the first entry is taken from the list
  and its file name, long name and attributes are added to the reply.
\<close>

fun readdir_loop ::
  "id_consts \<Rightarrow> sftp_server \<Rightarrow> env \<Rightarrow> nat \<Rightarrow> string list \<Rightarrow>
   (string \<times> string \<times> sftp_attributes) list \<Rightarrow> call list \<Rightarrow>
   (string \<times> string \<times> sftp_attributes) list \<times> string list \<times> call list" where
  "readdir_loop K S E 0 dir_entries names tr = (names, dir_entries, tr)"
| "readdir_loop K S E (Suc n) [] names tr = (names, [], tr)"
| "readdir_loop K S E (Suc n) (entry # dir_entries) names tr0 =
     (let filename = qfi_fileName E entry;
          (sym, tr) = call_bool E (Query IsSymLink entry) tr0;
          (attr, tr) = (if sym then symlink_attr K S E (qfi_absoluteFilePath E entry) tr
                        else attr_from K S E entry tr);
          (longname, tr) = longname_from E entry filename tr
      in readdir_loop K S E n dir_entries (names @ [(filename, longname, attr)]) tr)"

definition max_num_entries_per_packet :: nat where
  "max_num_entries_per_packet = 50"

definition handle_readdir ::
  "id_consts \<Rightarrow> sftp_server \<Rightarrow> env \<Rightarrow> client_message \<Rightarrow> call list \<Rightarrow> outcome" where
  "handle_readdir K S E msg tr0 =
     (case handle_from msg (open_dir_handles S) of
        None \<Rightarrow> (reply_bad_handle ''readdir'', S, tr0)
      | Some dir_entries \<Rightarrow>
          if dir_entries = [] then (Reply_status SSH_FX_EOF None, S, tr0)
          else
            let num_entries = min (length dir_entries) max_num_entries_per_packet;
                (names, rest, tr) = readdir_loop K S E num_entries dir_entries [] tr0
            in (Reply_names names,
                S\<lparr>open_dir_handles := (open_dir_handles S)(msg_handle msg \<mapsto> rest)\<rparr>, tr))"

definition handle_readlink :: "sftp_server \<Rightarrow> env \<Rightarrow> client_message \<Rightarrow> call list \<Rightarrow> outcome" where
  "handle_readlink S E msg tr0 =
     (let filename = msg_filename msg in
      if \<not> validate_path (source_path S) filename then (reply_perm_denied, S, tr0)
      else
        let (link, tr) = call_str E (Query SymLinkTarget filename) tr0 in
        if link = [] then (Reply_status SSH_FX_NO_SUCH_FILE (Some ''invalid link''), S, tr)
        else (Reply_names [(link, link, zero_attr)], S, tr))"

definition handle_realpath :: "sftp_server \<Rightarrow> env \<Rightarrow> client_message \<Rightarrow> call list \<Rightarrow> outcome" where
  "handle_realpath S E msg tr0 =
     (let filename = msg_filename msg in
      if \<not> validate_path (source_path S) filename then (reply_perm_denied, S, tr0)
      else (Reply_name (qfi_absoluteFilePath E filename), S, tr0))"

definition handle_remove :: "sftp_server \<Rightarrow> env \<Rightarrow> client_message \<Rightarrow> call list \<Rightarrow> outcome" where
  "handle_remove S E msg tr0 =
     (let filename = msg_filename msg in
      if \<not> validate_path (source_path S) filename then (reply_perm_denied, S, tr0)
      else
        let (removed, tr) = call_bool E (FileOps_remove filename) tr0 in
        if \<not> removed then (reply_failure, S, tr) else (reply_ok, S, tr))"

text \<open>
  The test \<open>!QFileInfo(p).isSymLink() && !QFile::exists(p)\<close>: the second query is made
  only when the first is false. The result is true when the path is a symbolic link or
  exists.
\<close>

definition symlink_or_exists :: "env \<Rightarrow> string \<Rightarrow> call list \<Rightarrow> bool \<times> call list" where
  "symlink_or_exists E p tr0 =
     (let (sym, tr) = call_bool E (Query IsSymLink p) tr0 in
      if sym then (True, tr) else call_bool E (Query Exists p) tr)"

definition handle_rename :: "sftp_server \<Rightarrow> env \<Rightarrow> client_message \<Rightarrow> call list \<Rightarrow> outcome" where
  "handle_rename S E msg tr0 =
     (let source = msg_filename msg in
      if \<not> validate_path (source_path S) source then (reply_perm_denied, S, tr0)
      else
        let (present, tr) = symlink_or_exists E source tr0 in
        if \<not> present then (Reply_status SSH_FX_NO_SUCH_FILE (Some ''no such file''), S, tr)
        else
          let target = msg_data msg in
          if \<not> validate_path (source_path S) target then (reply_perm_denied, S, tr)
          else
            let (target_exists, tr) = call_bool E (Query Exists target) tr;
                (removed, tr) = (if target_exists then call_bool E (FileOps_remove target) tr
                                 else (True, tr))
            in
            if \<not> removed then (reply_failure, S, tr)
            else
              let (renamed, tr) = call_bool E (FileOps_rename source target) tr in
              if \<not> renamed then (reply_failure, S, tr) else (reply_ok, S, tr))"

text \<open>
  The four conditional steps of \<open>handle_setstat\<close> on the resolved file name; the result
  is false as soon as one step fails.
\<close>

definition apply_attr :: "sftp_server \<Rightarrow> env \<Rightarrow> client_message \<Rightarrow> string \<Rightarrow> call list \<Rightarrow> bool \<times> call list" where
  "apply_attr S E msg filename tr0 =
     (let attr = msg_attr msg;
          (resized, tr) = (if has_flag (attr_flags attr) SSH_FILEXFER_ATTR_SIZE
                           then call_bool E (FileOps_resize filename (attr_size attr)) tr0
                           else (True, tr0))
      in
      if \<not> resized then (False, tr)
      else
        let (perm_set, tr) = (if has_flag (attr_flags attr) SSH_FILEXFER_ATTR_PERMISSIONS
                              then call_bool E (FileOps_setPermissions filename
                                     (to_qt_permissions (attr_permissions attr))) tr
                              else (True, tr))
        in
        if \<not> perm_set then (False, tr)
        else
          let (timed, tr) = (if has_flag (attr_flags attr) SSH_FILEXFER_ATTR_ACMODTIME
                             then call_int E (Platform_utime filename (attr_atime attr) (attr_mtime attr)) tr
                             else (0, tr))
          in
          if timed < 0 then (False, tr)
          else
            let (owned, tr) = (if has_flag (attr_flags attr) SSH_FILEXFER_ATTR_UIDGID
                               then call_int E (Platform_chown filename
                                      (reverse_uid_for S (attr_uid attr) (attr_uid attr))
                                      (reverse_gid_for S (attr_gid attr) (attr_gid attr))) tr
                               else (0, tr))
            in (\<not> owned < 0, tr))"

text \<open>
  \<open>handle_setstat\<close> holds the file name in a \<open>QString\<close>. For FSETSTAT it is the name
  of the open file. For SETSTAT the \<open>QString\<close> is made from the C string of the
  message, and the path check is made on \<open>filename.toStdString()\<close>, the converted
  name; the calls that follow are made on that same name.
\<close>

definition handle_setstat :: "sftp_server \<Rightarrow> env \<Rightarrow> client_message \<Rightarrow> call list \<Rightarrow> outcome" where
  "handle_setstat S E msg tr0 =
     (if msg_type msg = SFTP_FSETSTAT then
        (case handle_from msg (open_file_handles S) of
           None \<Rightarrow> (reply_bad_handle ''setstat'', S, tr0)
         | Some filename \<Rightarrow>
             let (done, tr) = apply_attr S E msg filename tr0 in
             if \<not> done then (reply_failure, S, tr) else (reply_ok, S, tr))
      else
        let filename = qstring_toStdString E (msg_filename msg) in
        if \<not> validate_path (source_path S) filename then (reply_perm_denied, S, tr0)
        else
          let (present, tr) = symlink_or_exists E filename tr0 in
          if \<not> present then (Reply_status SSH_FX_NO_SUCH_FILE (Some ''no such file''), S, tr)
          else
            let (done, tr) = apply_attr S E msg filename tr in
            if \<not> done then (reply_failure, S, tr) else (reply_ok, S, tr))"

definition handle_stat ::
  "id_consts \<Rightarrow> sftp_server \<Rightarrow> env \<Rightarrow> client_message \<Rightarrow> bool \<Rightarrow> call list \<Rightarrow> outcome" where
  "handle_stat K S E msg follow tr0 =
     (let filename = msg_filename msg in
      if \<not> validate_path (source_path S) filename then (reply_perm_denied, S, tr0)
      else
        let (present, tr) = symlink_or_exists E filename tr0 in
        if \<not> present then (Reply_status SSH_FX_NO_SUCH_FILE (Some ''no such file''), S, tr)
        else
          let (sym, tr) = (if follow then (False, tr) else call_bool E (Query IsSymLink filename) tr) in
          if \<not> follow \<and> sym then
            (let (attr, tr) = symlink_attr K S E filename tr in (Reply_attr attr, S, tr))
          else
            let (sym, tr) = call_bool E (Query IsSymLink filename) tr;
                (file_info, tr) = (if sym then call_str E (Query SymLinkTarget filename) tr
                                   else (filename, tr));
                (attr, tr) = attr_from K S E file_info tr
            in (Reply_attr attr, S, tr))"

definition handle_symlink :: "sftp_server \<Rightarrow> env \<Rightarrow> client_message \<Rightarrow> call list \<Rightarrow> outcome" where
  "handle_symlink S E msg tr0 =
     (let old_name = msg_filename msg;
          new_name = msg_data msg
      in
      if \<not> validate_path (source_path S) new_name then (reply_perm_denied, S, tr0)
      else
        let (is_dir, tr) = call_bool E (Query IsDir old_name) tr0;
            (linked, tr) = call_bool E (Platform_symlink old_name new_name is_dir) tr
        in if \<not> linked then (reply_failure, S, tr) else (reply_ok, S, tr))"

text \<open>
  The \<open>do ... while (len > 0)\<close> loop of \<open>handle_write\<close>. \<open>len\<close> is a \<open>size_t\<close>, the
  result \<open>r\<close> of a write a signed 64-bit number; the loop ends when a write fails
  (result \<open>False\<close>) or when \<open>len\<close> reaches 0 (result \<open>True\<close>). A host whose writes keep
  returning 0 keeps the loop running: the function is partial.
\<close>

partial_function (option) write_loop ::
  "env \<Rightarrow> nat \<Rightarrow> string \<Rightarrow> 64 word \<Rightarrow> call list \<Rightarrow> (bool \<times> call list) option" where
  "write_loop E file data_ptr len tr0 =
     (let (r, tr) = call_int E (FileOps_write file data_ptr len) tr0 in
      if r < 0 then Some (False, tr)
      else
        let tr = tr @ [QFile_flush file];
            data_ptr = drop (nat r) data_ptr;
            len = len - word_of_int r
        in if len > 0 then write_loop E file data_ptr len tr else Some (True, tr))"

definition handle_write ::
  "sftp_server \<Rightarrow> env \<Rightarrow> client_message \<Rightarrow> call list \<Rightarrow> outcome option" where
  "handle_write S E msg tr0 =
     (case handle_from msg (open_file_handles S) of
        None \<Rightarrow> Some (reply_bad_handle ''write'', S, tr0)
      | Some file_name \<Rightarrow>
          let file = msg_handle msg;
              len = (of_nat (length (msg_data msg)) :: 64 word);
              data_ptr = msg_data msg;
              (sought, tr) = call_bool E (FileOps_seek file (msg_offset msg)) tr0
          in
          if \<not> sought then Some (reply_failure, S, tr)
          else
            (case write_loop E file data_ptr len tr of
               None \<Rightarrow> None
             | Some (written, tr) \<Rightarrow>
                 if \<not> written then Some (reply_failure, S, tr) else Some (reply_ok, S, tr)))"

definition handle_extended :: "sftp_server \<Rightarrow> env \<Rightarrow> client_message \<Rightarrow> call list \<Rightarrow> outcome" where
  "handle_extended S E msg tr0 =
     (case msg_submessage msg of
        None \<Rightarrow> (reply_failure, S, tr0)
      | Some method \<Rightarrow>
          if method = ''hardlink@openssh.com'' then
            (let old_name = msg_filename msg;
                 new_name = msg_data msg
             in
             if \<not> validate_path (source_path S) new_name then (reply_perm_denied, S, tr0)
             else
               let (linked, tr) = call_bool E (Platform_link old_name new_name) tr0 in
               if \<not> linked then (reply_failure, S, tr) else (reply_ok, S, tr))
          else if method = ''posix-rename@openssh.com'' then handle_rename S E msg tr0
          else (reply_unsupported, S, tr0))"

definition process_message ::
  "id_consts \<Rightarrow> sftp_server \<Rightarrow> env \<Rightarrow> client_message \<Rightarrow> call list \<Rightarrow> outcome option" where
  "process_message K S E msg tr =
     (case msg_type msg of
        SFTP_REALPATH \<Rightarrow> Some (handle_realpath S E msg tr)
      | SFTP_OPENDIR \<Rightarrow> Some (handle_opendir S E msg tr)
      | SFTP_MKDIR \<Rightarrow> Some (handle_mkdir S E msg tr)
      | SFTP_RMDIR \<Rightarrow> Some (handle_rmdir S E msg tr)
      | SFTP_LSTAT \<Rightarrow> Some (handle_stat K S E msg False tr)
      | SFTP_STAT \<Rightarrow> Some (handle_stat K S E msg True tr)
      | SFTP_FSTAT \<Rightarrow> Some (handle_fstat K S E msg tr)
      | SFTP_READDIR \<Rightarrow> Some (handle_readdir K S E msg tr)
      | SFTP_CLOSE \<Rightarrow> Some (handle_close S E msg tr)
      | SFTP_OPEN \<Rightarrow> Some (handle_open S E msg tr)
      | SFTP_READ \<Rightarrow> Some (handle_read S E msg tr)
      | SFTP_WRITE \<Rightarrow> handle_write S E msg tr
      | SFTP_RENAME \<Rightarrow> Some (handle_rename S E msg tr)
      | SFTP_REMOVE \<Rightarrow> Some (handle_remove S E msg tr)
      | SFTP_SETSTAT \<Rightarrow> Some (handle_setstat S E msg tr)
      | SFTP_FSETSTAT \<Rightarrow> Some (handle_setstat S E msg tr)
      | SFTP_READLINK \<Rightarrow> Some (handle_readlink S E msg tr)
      | SFTP_SYMLINK \<Rightarrow> Some (handle_symlink S E msg tr)
      | SFTP_EXTENDED \<Rightarrow> Some (handle_extended S E msg tr)
      | SFTP_OTHER t \<Rightarrow> Some (reply_unsupported, S, tr))"

section \<open>Vocabulary of the properties\<close>

text \<open>The calls a handler added to the history.\<close>

definition new_calls :: "call list \<Rightarrow> call list \<Rightarrow> call list" where
  "new_calls tr tr' = drop (length tr) tr'"


definition is_hardlink :: "client_message \<Rightarrow> bool" where
  "is_hardlink msg \<longleftrightarrow>
     msg_type msg = SFTP_EXTENDED \<and> msg_submessage msg = Some ''hardlink@openssh.com''"

definition is_rename :: "client_message \<Rightarrow> bool" where
  "is_rename msg \<longleftrightarrow>
     msg_type msg = SFTP_RENAME \<or>
     (msg_type msg = SFTP_EXTENDED \<and> msg_submessage msg = Some ''posix-rename@openssh.com'')"

definition is_link_request :: "client_message \<Rightarrow> bool" where
  "is_link_request msg \<longleftrightarrow> msg_type msg = SFTP_SYMLINK \<or> is_hardlink msg"

text \<open>The requests that carry one path, in the file name field.\<close>

definition single_path_request :: "client_message \<Rightarrow> bool" where
  "single_path_request msg \<longleftrightarrow>
     msg_type msg \<in> {SFTP_REALPATH, SFTP_OPENDIR, SFTP_MKDIR, SFTP_RMDIR, SFTP_STAT, SFTP_LSTAT,
                      SFTP_SETSTAT, SFTP_OPEN, SFTP_REMOVE, SFTP_READLINK}"

definition path_request :: "client_message \<Rightarrow> bool" where
  "path_request msg \<longleftrightarrow> single_path_request msg \<or> is_rename msg \<or> is_link_request msg"

text \<open>
  The path a handler validates first: the new name (the data field) for SYMLINK and
  hardlink, the file name converted by \<open>QString\<close> for SETSTAT, the file name for every
  other request with a path.
\<close>

definition first_path :: "env \<Rightarrow> client_message \<Rightarrow> string" where
  "first_path E msg =
     (if is_link_request msg then msg_data msg
      else if msg_type msg = SFTP_SETSTAT then qstring_toStdString E (msg_filename msg)
      else msg_filename msg)"


text \<open>Every open file was opened under a name that passed the path check.\<close>

definition files_validated :: "sftp_server \<Rightarrow> bool" where
  "files_validated S \<longleftrightarrow>
     (\<forall>name \<in> ran (open_file_handles S). validate_path (source_path S) name)"

text \<open>
  A client that sends READDIR on one handle up to \<open>n\<close> times and stops at the first
  reply that is not a list of names: the lists received, the last reply, the server and
  the history afterwards.
\<close>

fun readdir_times ::
  "id_consts \<Rightarrow> env \<Rightarrow> client_message \<Rightarrow> nat \<Rightarrow> sftp_server \<Rightarrow> call list \<Rightarrow>
   (string \<times> string \<times> sftp_attributes) list list \<times> reply option \<times> sftp_server \<times> call list" where
  "readdir_times K E msg 0 S tr = ([], None, S, tr)"
| "readdir_times K E msg (Suc n) S tr =
     (case handle_readdir K S E msg tr of
        (Reply_names names, S', tr') \<Rightarrow>
          (let (chunks, last_reply, S'', tr'') = readdir_times K E msg n S' tr'
           in (names # chunks, last_reply, S'', tr''))
      | (other, S', tr') \<Rightarrow> ([], Some other, S', tr'))"

text \<open>The file and mode of a call that opens a file.\<close>

fun opens :: "call \<Rightarrow> (string \<times> 32 word) list" where
  "opens (FileOps_open p m) = [(p, m)]"
| "opens _ = []"

section \<open>Example hosts and servers\<close>

definition share_server :: sftp_server where
  "share_server = \<lparr>source_path = ''/srv/share'', gid_mappings = [(1000, 2000)],
     uid_mappings = [(1000, 2000)], default_uid = 500, default_gid = 500,
     open_file_handles = Map.empty, open_dir_handles = Map.empty\<rparr>"

definition std_ids :: id_consts where
  "std_ids = \<lparr>no_id_info_available = - 1, default_id = - 1\<rparr>"

text \<open>A host on which nothing exists and every operation fails.\<close>

definition barren_host :: env where
  "barren_host = \<lparr>answers = (\<lambda>tr c. A_bool False), qfi_path = (\<lambda>p. ''/''),
     qfi_fileName = (\<lambda>p. p), qfi_absoluteFilePath = (\<lambda>p. p), qdt_toString = (\<lambda>t. []),
     qstring_toStdString = (\<lambda>p. p)\<rparr>"

text \<open>
  A host on which every path exists as a plain file owned by user and group 1000, every
  operation succeeds, a listing has three entries and the allocator returns address 7.
\<close>

fun willing_answers :: "call list \<Rightarrow> call \<Rightarrow> answer" where
  "willing_answers tr (Query IsSymLink p) = A_bool False"
| "willing_answers tr (Query IsDir p) = A_bool False"
| "willing_answers tr (Query OwnerId p) = A_int 1000"
| "willing_answers tr (Query GroupId p) = A_int 1000"
| "willing_answers tr (Query Size p) = A_int 0"
| "willing_answers tr (Query Permissions p) = A_int 0"
| "willing_answers tr (Query LastRead p) = A_int 0"
| "willing_answers tr (Query LastModified p) = A_int 0"
| "willing_answers tr (Query SymLinkTarget p) = A_str []"
| "willing_answers tr (Query EntryInfoList p) = A_list [''.'', ''..'', ''f'']"
| "willing_answers tr (Query SymlinkAttr p) = A_attr zero_attr"
| "willing_answers tr (Query k p) = A_bool True"
| "willing_answers tr (Platform_chown p u g) = A_int 0"
| "willing_answers tr (Platform_utime p a m) = A_int 0"
| "willing_answers tr (FileOps_read f n) = A_data 0 []"
| "willing_answers tr (FileOps_write f d n) = A_int (int (length d))"
| "willing_answers tr (QFile_errorString f) = A_str []"
| "willing_answers tr Make_unique = A_int 7"
| "willing_answers tr c = A_bool True"

definition willing_host :: env where
  "willing_host = \<lparr>answers = willing_answers, qfi_path = (\<lambda>p. ''/srv/share''),
     qfi_fileName = (\<lambda>p. p), qfi_absoluteFilePath = (\<lambda>p. p), qdt_toString = (\<lambda>t. []),
     qstring_toStdString = (\<lambda>p. p)\<rparr>"

text \<open>
  The willing host, except that every path is a symbolic link whose target does not exist.
\<close>

fun dangling_answers :: "call list \<Rightarrow> call \<Rightarrow> answer" where
  "dangling_answers tr (Query IsSymLink p) = A_bool True"
| "dangling_answers tr (Query Exists p) = A_bool False"
| "dangling_answers tr c = willing_answers tr c"

definition dangling_host :: env where
  "dangling_host = willing_host\<lparr>answers := dangling_answers\<rparr>"

text \<open>The willing host, except that every path is owned by user 1001 and group 1002.\<close>

fun other_owner_answers :: "call list \<Rightarrow> call \<Rightarrow> answer" where
  "other_owner_answers tr (Query OwnerId p) = A_int 1001"
| "other_owner_answers tr (Query GroupId p) = A_int 1002"
| "other_owner_answers tr c = willing_answers tr c"

definition other_owner_host :: env where
  "other_owner_host = willing_host\<lparr>answers := other_owner_answers\<rparr>"

definition request :: "msg_type \<Rightarrow> string \<Rightarrow> string \<Rightarrow> client_message" where
  "request t filename data = \<lparr>msg_type = t, msg_filename = filename, msg_data = data,
     msg_flags = 0, msg_offset = 0, msg_len = 0, msg_attr = zero_attr, msg_handle = 0,
     msg_submessage = None\<rparr>"

definition one_file_server :: sftp_server where
  "one_file_server = share_server\<lparr>open_file_handles := [7 \<mapsto> ''/srv/share/f'']\<rparr>"

definition handle_request :: "msg_type \<Rightarrow> nat \<Rightarrow> client_message" where
  "handle_request t h = (request t [] [])\<lparr>msg_handle := h\<rparr>"

definition open_request :: "string \<Rightarrow> 32 word \<Rightarrow> client_message" where
  "open_request filename flags = (request SFTP_OPEN filename [])\<lparr>msg_flags := flags\<rparr>"

definition mkdir_request :: "string \<Rightarrow> 32 word \<Rightarrow> 32 word \<Rightarrow> 32 word \<Rightarrow> client_message" where
  "mkdir_request filename perms uid gid =
     (request SFTP_MKDIR filename [])
       \<lparr>msg_attr := zero_attr\<lparr>attr_permissions := perms, attr_uid := uid, attr_gid := gid\<rparr>\<rparr>"

definition listing_server :: sftp_server where
  "listing_server = share_server\<lparr>open_dir_handles := [7 \<mapsto> [''.'', ''..'', ''f'']]\<rparr>"



section \<open>Properties of the iterator search\<close>

lemma find_if_le: "find_if P xs \<le> length xs"
  by (induction xs) auto

lemma find_if_end: "find_if P xs = length xs \<longleftrightarrow> (\<forall>x \<in> set xs. \<not> P x)"
proof (induction xs)
  case Nil
  show ?case by simp
next
  case (Cons x xs)
  have "find_if P xs \<le> length xs" by (rule find_if_le)
  with Cons show ?case by auto
qed

lemma find_if_first:
  "i < length xs \<Longrightarrow> P (xs ! i) \<Longrightarrow> (\<forall>j < i. \<not> P (xs ! j)) \<Longrightarrow> find_if P xs = i"
proof (induction xs arbitrary: i)
  case Nil
  then show ?case by simp
next
  case (Cons x xs)
  show ?case
  proof (cases i)
    case 0
    with Cons.prems show ?thesis by simp
  next
    case (Suc k)
    from Cons.prems Suc have nx: "\<not> P x" by force
    from Cons.prems Suc have "\<forall>j < k. \<not> P (xs ! j)" by force
    moreover from Cons.prems Suc have "k < length xs" "P (xs ! k)" by auto
    ultimately have "find_if P xs = k" using Cons.IH by blast
    with nx Suc show ?thesis by simp
  qed
qed

section \<open>Forward and reverse mapping\<close>

text \<open>
  C3. The forward mapping returns the fallback \<open>f\<close> when the id is the
  \<open>NO_ID_INFO\<close> sentinel. Otherwise the map is scanned in order: at the first entry
  whose first component is the id, the result is \<open>f\<close> if the entry's second component
  is \<open>DEFAULT_ID\<close> and that second component if not; with no matching entry the id
  is returned unchanged.
\<close>

theorem mapped_id_for_first_match:
  "(u = no_id_info_available K \<longrightarrow> mapped_id_for K M u f = f) \<and>
   (u \<noteq> no_id_info_available K \<longrightarrow>
      (\<forall>i < length M. fst (M ! i) = u \<and> (\<forall>j < i. fst (M ! j) \<noteq> u) \<longrightarrow>
         mapped_id_for K M u f = (if snd (M ! i) = default_id K then f else snd (M ! i)))) \<and>
   (u \<noteq> no_id_info_available K \<longrightarrow> (\<forall>p \<in> set M. fst p \<noteq> u) \<longrightarrow> mapped_id_for K M u f = u)"
proof (intro conjI impI allI)
  assume "u = no_id_info_available K"
  then show "mapped_id_for K M u f = f" by (simp add: mapped_id_for_def)
next
  fix i
  assume u: "u \<noteq> no_id_info_available K"
    and i: "i < length M"
    and m: "fst (M ! i) = u \<and> (\<forall>j < i. fst (M ! j) \<noteq> u)"
  from i m have "find_if (\<lambda>p. u = fst p) M = i"
    by (intro find_if_first) auto
  with u i show "mapped_id_for K M u f = (if snd (M ! i) = default_id K then f else snd (M ! i))"
    by (simp add: mapped_id_for_def)
next
  assume u: "u \<noteq> no_id_info_available K" and none: "\<forall>p \<in> set M. fst p \<noteq> u"
  from none have "find_if (\<lambda>p. u = fst p) M = length M"
    by (subst find_if_end) auto
  with u show "mapped_id_for K M u f = u" by (simp add: mapped_id_for_def)
qed

theorem mapped_id_for_first_match_witness:
  "mapped_id_for \<lparr>no_id_info_available = - 1, default_id = - 1\<rparr> [(1000, - 1)] (- 1) 500 = 500 \<and>
   mapped_id_for \<lparr>no_id_info_available = - 1, default_id = - 1\<rparr> [(7, 8), (1000, - 1), (1000, 3000)] 1000 500 = 500 \<and>
   mapped_id_for \<lparr>no_id_info_available = - 1, default_id = - 1\<rparr> [(1000, 2000), (1000, 3000)] 1000 500 = 2000 \<and>
   mapped_id_for \<lparr>no_id_info_available = - 1, default_id = - 1\<rparr> [(1000, 2000)] 7 500 = 7"
  using mapped_id_for_first_match [of "- 1" "\<lparr>no_id_info_available = - 1, default_id = - 1\<rparr>" "[(1000, - 1)]" 500]
    mapped_id_for_first_match [of 1000 "\<lparr>no_id_info_available = - 1, default_id = - 1\<rparr>" "[(7, 8), (1000, - 1), (1000, 3000)]" 500, THEN conjunct2, THEN conjunct1, rule_format, of 1]
    mapped_id_for_first_match [of 1000 "\<lparr>no_id_info_available = - 1, default_id = - 1\<rparr>" "[(1000, 2000), (1000, 3000)]" 500, THEN conjunct2, THEN conjunct1, rule_format, of 0]
    mapped_id_for_first_match [of 7 "\<lparr>no_id_info_available = - 1, default_id = - 1\<rparr>" "[(1000, 2000)]" 500]
  by (simp add: less_Suc_eq)

text \<open>
  C4. The reverse mapping returns the first component of the first entry of the map
  whose second component is the id, and the fallback \<open>r\<close> when no entry has that second
  component. The first match wins, and a map with duplicate keys is accepted as it is.
\<close>

theorem reverse_id_for_first_match:
  "(\<forall>i < length M. snd (M ! i) = v \<and> (\<forall>j < i. snd (M ! j) \<noteq> v) \<longrightarrow>
      reverse_id_for M v r = fst (M ! i)) \<and>
   ((\<forall>p \<in> set M. snd p \<noteq> v) \<longrightarrow> reverse_id_for M v r = r)"
proof (intro conjI impI allI)
  fix i
  assume i: "i < length M" and m: "snd (M ! i) = v \<and> (\<forall>j < i. snd (M ! j) \<noteq> v)"
  from i m have "find_if (\<lambda>p. v = snd p) M = i"
    by (intro find_if_first) auto
  with i show "reverse_id_for M v r = fst (M ! i)"
    by (simp add: reverse_id_for_def)
next
  assume "\<forall>p \<in> set M. snd p \<noteq> v"
  then have "find_if (\<lambda>p. v = snd p) M = length M"
    by (subst find_if_end) auto
  then show "reverse_id_for M v r = r" by (simp add: reverse_id_for_def)
qed

theorem reverse_id_for_first_match_witness:
  "reverse_id_for [(5, 6), (1000, 2000), (1001, 2000), (1000, 2001)] 2000 77 = 1000 \<and>
   reverse_id_for [(1000, 2000)] 3000 77 = 77"
  using reverse_id_for_first_match [of "[(5, 6), (1000, 2000), (1001, 2000), (1000, 2001)]" 2000 77, THEN conjunct1, rule_format, of 1]
    reverse_id_for_first_match [of "[(1000, 2000)]" 3000 77]
  by (simp add: less_Suc_eq)

section \<open>Path validation is a prefix test\<close>

lemma traits_compare_zero:
  "n \<le> length xs \<Longrightarrow> n \<le> length ys \<Longrightarrow> traits_compare xs ys n = 0 \<longleftrightarrow> take n xs = take n ys"
proof (induction xs ys n rule: traits_compare.induct)
  case (1 x xs y ys n)
  have "(of_char x :: nat) = of_char y \<longleftrightarrow> x = y" by (rule of_char_eq_iff)
  then have ne: "x \<noteq> y \<Longrightarrow> (of_char x :: nat) < of_char y \<or> (of_char y :: nat) < of_char x"
    by linarith
  from 1 show ?case by (auto dest: ne)
qed auto

lemma prefix_take_eq: "length src \<le> length p \<Longrightarrow> take (length src) p = src \<longleftrightarrow> prefix src p"
  by (metis append_eq_conv_conj prefix_def take_is_prefix)

lemma string_compare_prefix:
  "string_compare p 0 (length src) src = 0 \<longleftrightarrow> prefix src p"
proof (cases "length src \<le> length p")
  case True
  then have rlen: "min (length src) (length p) = length src" by simp
  have "traits_compare p src (length src) = 0 \<longleftrightarrow> take (length src) p = take (length src) src"
    using True by (intro traits_compare_zero) auto
  with True rlen show ?thesis
    by (simp add: string_compare_def Let_def prefix_take_eq)
next
  case False
  then have "\<not> prefix src p" by (auto simp: prefix_def)
  with False show ?thesis by (auto simp: string_compare_def Let_def min_def)
qed

lemma validate_path_iff: "validate_path src p \<longleftrightarrow> src \<noteq> [] \<and> prefix src p"
  by (simp add: validate_path_def string_compare_prefix)

section \<open>A path that fails validation\<close>

lemma denied_realpath: "\<not> validate_path (source_path S) (msg_filename msg) \<Longrightarrow>
    handle_realpath S E msg tr = (reply_perm_denied, S, tr)"
  by (simp add: handle_realpath_def)

lemma denied_opendir: "\<not> validate_path (source_path S) (msg_filename msg) \<Longrightarrow>
    handle_opendir S E msg tr = (reply_perm_denied, S, tr)"
  by (simp add: handle_opendir_def)

lemma denied_mkdir: "\<not> validate_path (source_path S) (msg_filename msg) \<Longrightarrow>
    handle_mkdir S E msg tr = (reply_perm_denied, S, tr)"
  by (simp add: handle_mkdir_def)

lemma denied_rmdir: "\<not> validate_path (source_path S) (msg_filename msg) \<Longrightarrow>
    handle_rmdir S E msg tr = (reply_perm_denied, S, tr)"
  by (simp add: handle_rmdir_def)

lemma denied_stat: "\<not> validate_path (source_path S) (msg_filename msg) \<Longrightarrow>
    handle_stat K S E msg follow tr = (reply_perm_denied, S, tr)"
  by (simp add: handle_stat_def)

lemma denied_setstat: "msg_type msg \<noteq> SFTP_FSETSTAT \<Longrightarrow>
    \<not> validate_path (source_path S) (qstring_toStdString E (msg_filename msg)) \<Longrightarrow>
    handle_setstat S E msg tr = (reply_perm_denied, S, tr)"
  by (simp add: handle_setstat_def)

lemma denied_open: "\<not> validate_path (source_path S) (msg_filename msg) \<Longrightarrow>
    handle_open S E msg tr = (reply_perm_denied, S, tr)"
  by (simp add: handle_open_def)

lemma denied_remove: "\<not> validate_path (source_path S) (msg_filename msg) \<Longrightarrow>
    handle_remove S E msg tr = (reply_perm_denied, S, tr)"
  by (simp add: handle_remove_def)

lemma denied_rename: "\<not> validate_path (source_path S) (msg_filename msg) \<Longrightarrow>
    handle_rename S E msg tr = (reply_perm_denied, S, tr)"
  by (simp add: handle_rename_def)

lemma denied_readlink: "\<not> validate_path (source_path S) (msg_filename msg) \<Longrightarrow>
    handle_readlink S E msg tr = (reply_perm_denied, S, tr)"
  by (simp add: handle_readlink_def)

lemma denied_symlink: "\<not> validate_path (source_path S) (msg_data msg) \<Longrightarrow>
    handle_symlink S E msg tr = (reply_perm_denied, S, tr)"
  by (simp add: handle_symlink_def)

lemma denied_hardlink: "msg_submessage msg = Some ''hardlink@openssh.com'' \<Longrightarrow>
    \<not> validate_path (source_path S) (msg_data msg) \<Longrightarrow>
    handle_extended S E msg tr = (reply_perm_denied, S, tr)"
  by (simp add: handle_extended_def)

lemma extended_posix_rename: "msg_submessage msg = Some ''posix-rename@openssh.com'' \<Longrightarrow>
    handle_extended S E msg tr = handle_rename S E msg tr"
  by (simp add: handle_extended_def)

lemmas denied_handlers = denied_realpath denied_opendir denied_mkdir denied_rmdir denied_stat
  denied_open denied_remove denied_rename denied_readlink denied_symlink
  denied_hardlink extended_posix_rename

lemma denied_first:
  assumes "path_request msg" and "\<not> validate_path (source_path S) (first_path E msg)"
  shows "process_message K S E msg tr = Some (reply_perm_denied, S, tr)"
proof -
  consider (setstat) "msg_type msg = SFTP_SETSTAT"
    | (single) "single_path_request msg" "msg_type msg \<noteq> SFTP_SETSTAT"
    | (rename) "is_rename msg" | (link) "is_link_request msg"
    using assms(1) by (auto simp: path_request_def)
  then show ?thesis
  proof cases
    case setstat
    with assms(2) have "\<not> validate_path (source_path S) (qstring_toStdString E (msg_filename msg))"
      by (auto simp: first_path_def is_link_request_def is_hardlink_def)
    with setstat show ?thesis
      by (simp add: process_message_def denied_setstat)
  next
    case single
    with assms(2) have "\<not> validate_path (source_path S) (msg_filename msg)"
      by (auto simp: first_path_def single_path_request_def is_link_request_def is_hardlink_def)
    with single show ?thesis
      by (auto simp: single_path_request_def process_message_def denied_handlers)
  next
    case rename
    with assms(2) have "\<not> validate_path (source_path S) (msg_filename msg)"
      by (auto simp: first_path_def is_rename_def is_link_request_def is_hardlink_def)
    with rename show ?thesis
      by (auto simp: is_rename_def process_message_def denied_handlers)
  next
    case link
    with assms(2) have "\<not> validate_path (source_path S) (msg_data msg)"
      by (simp add: first_path_def)
    with link show ?thesis
      by (auto simp: is_link_request_def is_hardlink_def process_message_def denied_handlers)
  qed
qed

text \<open>
  C10. With an empty source path the path check fails for every path, so every request
  that carries a path, also one whose path begins with the empty prefix as every path
  does, is answered with PERMISSION_DENIED; the server and the host are left as they were.
\<close>

theorem empty_source_denies_every_path:
  "source_path S = [] \<Longrightarrow> path_request msg \<Longrightarrow>
   process_message K S E msg tr =
     Some (Reply_status SSH_FX_PERMISSION_DENIED (Some ''permission denied''), S, tr)"
  using denied_first [of msg S E K tr]
  by (simp add: validate_path_def reply_perm_denied_def)

theorem empty_source_denies_every_path_witness:
  "source_path (share_server\<lparr>source_path := []\<rparr>) = [] \<and>
   path_request (request SFTP_OPEN ''anything'' []) \<and>
   process_message std_ids (share_server\<lparr>source_path := []\<rparr>) willing_host
     (request SFTP_OPEN ''anything'' []) [] =
     Some (Reply_status SSH_FX_PERMISSION_DENIED (Some ''permission denied''),
           share_server\<lparr>source_path := []\<rparr>, [])"
proof -
  have a: "source_path (share_server\<lparr>source_path := []\<rparr>) = []" by simp
  have b: "path_request (request SFTP_OPEN ''anything'' [])"
    by (simp add: path_request_def single_path_request_def request_def)
  from a b empty_source_denies_every_path [OF a b] show ?thesis by simp
qed



lemma process_rename:
  "is_rename msg \<Longrightarrow> process_message K S E msg tr = Some (handle_rename S E msg tr)"
  by (auto simp: is_rename_def process_message_def handle_extended_def)

lemma symlink_or_exists_answers:
  "symlink_or_exists E p tr =
     (as_bool (answers E tr (Query IsSymLink p)) \<or>
      as_bool (answers E (tr @ [Query IsSymLink p]) (Query Exists p)),
      tr @ [Query IsSymLink p] @
        (if as_bool (answers E tr (Query IsSymLink p)) then [] else [Query Exists p]))"
  by (simp add: symlink_or_exists_def call_bool_def Let_def)




section \<open>Handles\<close>

lemma erase_None: "m k = None \<Longrightarrow> erase m k = (0, m)"
  by (auto simp: erase_def)

lemma erase_snd: "snd (erase m k) = m(k := None)"
  by (auto simp: erase_def)

lemma erase_fst: "fst (erase m k) = (if m k = None then 0 else 1)"
  by (auto simp: erase_def)

lemma close_absent:
  "open_file_handles S (msg_handle msg) = None \<Longrightarrow> open_dir_handles S (msg_handle msg) = None \<Longrightarrow>
   handle_close S E msg tr = (reply_bad_handle ''close'', S, tr)"
  by (simp add: handle_close_def erase_None)

lemma close_present:
  "open_file_handles S (msg_handle msg) \<noteq> None \<or> open_dir_handles S (msg_handle msg) \<noteq> None \<Longrightarrow>
   handle_close S E msg tr =
     (reply_ok,
      S\<lparr>open_file_handles := (open_file_handles S)(msg_handle msg := None),
        open_dir_handles := (open_dir_handles S)(msg_handle msg := None)\<rparr>,
      tr @ [Sftp_handle_remove (msg_handle msg)])"
  by (auto simp: handle_close_def Let_def case_prod_beta erase_fst erase_snd)

lemma close_reply:
  "fst (handle_close S E msg tr) = reply_ok \<or> fst (handle_close S E msg tr) = reply_bad_handle ''close''"
  by (cases "open_file_handles S (msg_handle msg) = None \<and> open_dir_handles S (msg_handle msg) = None")
     (auto simp: close_absent close_present)

lemma bad_handle_read: "open_file_handles S (msg_handle msg) = None \<Longrightarrow>
   handle_read S E msg tr = (reply_bad_handle ''read'', S, tr)"
  by (simp add: handle_read_def handle_from_def)

lemma bad_handle_write: "open_file_handles S (msg_handle msg) = None \<Longrightarrow>
   handle_write S E msg tr = Some (reply_bad_handle ''write'', S, tr)"
  by (simp add: handle_write_def handle_from_def)

lemma bad_handle_fstat: "open_file_handles S (msg_handle msg) = None \<Longrightarrow>
   handle_fstat K S E msg tr = (reply_bad_handle ''fstat'', S, tr)"
  by (simp add: handle_fstat_def handle_from_def)

lemma bad_handle_fsetstat: "msg_type msg = SFTP_FSETSTAT \<Longrightarrow>
   open_file_handles S (msg_handle msg) = None \<Longrightarrow>
   handle_setstat S E msg tr = (reply_bad_handle ''setstat'', S, tr)"
  by (simp add: handle_setstat_def handle_from_def)

lemma bad_handle_readdir: "open_dir_handles S (msg_handle msg) = None \<Longrightarrow>
   handle_readdir K S E msg tr = (reply_bad_handle ''readdir'', S, tr)"
  by (simp add: handle_readdir_def handle_from_def)

lemma after_close:
  assumes "msg_type msg = SFTP_CLOSE"
    and "process_message K S E msg tr = Some (Reply_status SSH_FX_OK None, S', tr')"
  shows "open_file_handles S' (msg_handle msg) = None \<and> open_dir_handles S' (msg_handle msg) = None"
proof (cases "open_file_handles S (msg_handle msg) = None \<and> open_dir_handles S (msg_handle msg) = None")
  case True
  with assms show ?thesis
    by (simp add: process_message_def close_absent reply_bad_handle_def)
next
  case False
  then have "handle_close S E msg tr =
     (reply_ok,
      S\<lparr>open_file_handles := (open_file_handles S)(msg_handle msg := None),
        open_dir_handles := (open_dir_handles S)(msg_handle msg := None)\<rparr>,
      tr @ [Sftp_handle_remove (msg_handle msg)])"
    by (intro close_present) auto
  with assms show ?thesis by (auto simp: process_message_def)
qed

lemma bad_handle_file_ops:
  assumes "open_file_handles S (msg_handle m) = None"
  shows "(msg_type m = SFTP_READ \<longrightarrow> process_message K S E m tr =
         Some (Reply_status SSH_FX_BAD_MESSAGE (Some ''read: invalid handle''), S, tr)) \<and>
      (msg_type m = SFTP_WRITE \<longrightarrow> process_message K S E m tr =
         Some (Reply_status SSH_FX_BAD_MESSAGE (Some ''write: invalid handle''), S, tr)) \<and>
      (msg_type m = SFTP_FSTAT \<longrightarrow> process_message K S E m tr =
         Some (Reply_status SSH_FX_BAD_MESSAGE (Some ''fstat: invalid handle''), S, tr)) \<and>
      (msg_type m = SFTP_FSETSTAT \<longrightarrow> process_message K S E m tr =
         Some (Reply_status SSH_FX_BAD_MESSAGE (Some ''setstat: invalid handle''), S, tr))"
  using assms
  by (simp add: process_message_def bad_handle_read bad_handle_write bad_handle_fstat
      bad_handle_fsetstat reply_bad_handle_def)

lemma bad_handle_dir_op:
  assumes "open_dir_handles S (msg_handle m) = None" and "msg_type m = SFTP_READDIR"
  shows "process_message K S E m tr =
         Some (Reply_status SSH_FX_BAD_MESSAGE (Some ''readdir: invalid handle''), S, tr)"
  using assms by (simp add: process_message_def bad_handle_readdir reply_bad_handle_def)

lemma close_cases:
  assumes "msg_type msg = SFTP_CLOSE"
  shows "(open_file_handles S (msg_handle msg) = None \<and> open_dir_handles S (msg_handle msg) = None \<longrightarrow>
         process_message K S E msg tr =
           Some (Reply_status SSH_FX_BAD_MESSAGE (Some ''close: invalid handle''), S, tr)) \<and>
      (open_file_handles S (msg_handle msg) \<noteq> None \<or> open_dir_handles S (msg_handle msg) \<noteq> None \<longrightarrow>
         process_message K S E msg tr =
           Some (Reply_status SSH_FX_OK None,
             S\<lparr>open_file_handles := (open_file_handles S)(msg_handle msg := None),
               open_dir_handles := (open_dir_handles S)(msg_handle msg := None)\<rparr>,
             tr @ [Sftp_handle_remove (msg_handle msg)]))"
  using assms close_present [of S msg E tr]
  by (auto simp: process_message_def close_absent reply_bad_handle_def reply_ok_def)

text \<open>
  C8. A handle that is not in the table of open files makes READ, WRITE, FSTAT and
  FSETSTAT reply BAD_MESSAGE with the words read, write, fstat and setstat (the handler
  of FSETSTAT names itself setstat); a handle that is not in the table of open
  directories makes READDIR reply BAD_MESSAGE with the word readdir; CLOSE on a handle in
  neither table replies BAD_MESSAGE with the word close. In each case the server and the
  host are untouched. CLOSE on a handle in one of the tables replies OK and removes the
  key from both, so that after a successful CLOSE the handle is in neither table and the
  first part applies to it.
\<close>

theorem closed_handle_rejected:
  "(open_file_handles S (msg_handle m) = None \<longrightarrow>
      (msg_type m = SFTP_READ \<longrightarrow> process_message K S E m tr =
         Some (Reply_status SSH_FX_BAD_MESSAGE (Some ''read: invalid handle''), S, tr)) \<and>
      (msg_type m = SFTP_WRITE \<longrightarrow> process_message K S E m tr =
         Some (Reply_status SSH_FX_BAD_MESSAGE (Some ''write: invalid handle''), S, tr)) \<and>
      (msg_type m = SFTP_FSTAT \<longrightarrow> process_message K S E m tr =
         Some (Reply_status SSH_FX_BAD_MESSAGE (Some ''fstat: invalid handle''), S, tr)) \<and>
      (msg_type m = SFTP_FSETSTAT \<longrightarrow> process_message K S E m tr =
         Some (Reply_status SSH_FX_BAD_MESSAGE (Some ''setstat: invalid handle''), S, tr))) \<and>
   (open_dir_handles S (msg_handle m) = None \<and> msg_type m = SFTP_READDIR \<longrightarrow>
      process_message K S E m tr =
         Some (Reply_status SSH_FX_BAD_MESSAGE (Some ''readdir: invalid handle''), S, tr)) \<and>
   (msg_type msg = SFTP_CLOSE \<longrightarrow>
      (open_file_handles S (msg_handle msg) = None \<and> open_dir_handles S (msg_handle msg) = None \<longrightarrow>
         process_message K S E msg tr =
           Some (Reply_status SSH_FX_BAD_MESSAGE (Some ''close: invalid handle''), S, tr)) \<and>
      (open_file_handles S (msg_handle msg) \<noteq> None \<or> open_dir_handles S (msg_handle msg) \<noteq> None \<longrightarrow>
         process_message K S E msg tr =
           Some (Reply_status SSH_FX_OK None,
             S\<lparr>open_file_handles := (open_file_handles S)(msg_handle msg := None),
               open_dir_handles := (open_dir_handles S)(msg_handle msg := None)\<rparr>,
             tr @ [Sftp_handle_remove (msg_handle msg)])) \<and>
      (\<forall>S' tr'. process_message K S E msg tr = Some (Reply_status SSH_FX_OK None, S', tr') \<longrightarrow>
         open_file_handles S' (msg_handle msg) = None \<and> open_dir_handles S' (msg_handle msg) = None))"
proof (intro conjI)
  show "open_file_handles S (msg_handle m) = None \<longrightarrow>
      (msg_type m = SFTP_READ \<longrightarrow> process_message K S E m tr =
         Some (Reply_status SSH_FX_BAD_MESSAGE (Some ''read: invalid handle''), S, tr)) \<and>
      (msg_type m = SFTP_WRITE \<longrightarrow> process_message K S E m tr =
         Some (Reply_status SSH_FX_BAD_MESSAGE (Some ''write: invalid handle''), S, tr)) \<and>
      (msg_type m = SFTP_FSTAT \<longrightarrow> process_message K S E m tr =
         Some (Reply_status SSH_FX_BAD_MESSAGE (Some ''fstat: invalid handle''), S, tr)) \<and>
      (msg_type m = SFTP_FSETSTAT \<longrightarrow> process_message K S E m tr =
         Some (Reply_status SSH_FX_BAD_MESSAGE (Some ''setstat: invalid handle''), S, tr))"
    using bad_handle_file_ops [of S m K E tr] by blast
  show "open_dir_handles S (msg_handle m) = None \<and> msg_type m = SFTP_READDIR \<longrightarrow>
      process_message K S E m tr =
         Some (Reply_status SSH_FX_BAD_MESSAGE (Some ''readdir: invalid handle''), S, tr)"
    using bad_handle_dir_op [of S m K E tr] by blast
  show "msg_type msg = SFTP_CLOSE \<longrightarrow>
      (open_file_handles S (msg_handle msg) = None \<and> open_dir_handles S (msg_handle msg) = None \<longrightarrow>
         process_message K S E msg tr =
           Some (Reply_status SSH_FX_BAD_MESSAGE (Some ''close: invalid handle''), S, tr)) \<and>
      (open_file_handles S (msg_handle msg) \<noteq> None \<or> open_dir_handles S (msg_handle msg) \<noteq> None \<longrightarrow>
         process_message K S E msg tr =
           Some (Reply_status SSH_FX_OK None,
             S\<lparr>open_file_handles := (open_file_handles S)(msg_handle msg := None),
               open_dir_handles := (open_dir_handles S)(msg_handle msg := None)\<rparr>,
             tr @ [Sftp_handle_remove (msg_handle msg)])) \<and>
      (\<forall>S' tr'. process_message K S E msg tr = Some (Reply_status SSH_FX_OK None, S', tr') \<longrightarrow>
         open_file_handles S' (msg_handle msg) = None \<and> open_dir_handles S' (msg_handle msg) = None)"
    using close_cases [of msg S K E tr] after_close [of msg K S E tr] by blast
qed

theorem closed_handle_rejected_witness:
  "process_message std_ids one_file_server willing_host (handle_request SFTP_CLOSE 7) [] =
     Some (Reply_status SSH_FX_OK None, share_server, [Sftp_handle_remove 7]) \<and>
   process_message std_ids share_server willing_host (handle_request SFTP_READ 7) [Sftp_handle_remove 7] =
     Some (Reply_status SSH_FX_BAD_MESSAGE (Some ''read: invalid handle''), share_server, [Sftp_handle_remove 7]) \<and>
   process_message std_ids share_server willing_host (handle_request SFTP_READDIR 7) [] =
     Some (Reply_status SSH_FX_BAD_MESSAGE (Some ''readdir: invalid handle''), share_server, []) \<and>
   process_message std_ids share_server willing_host (handle_request SFTP_CLOSE 7) [] =
     Some (Reply_status SSH_FX_BAD_MESSAGE (Some ''close: invalid handle''), share_server, [])"
  using closed_handle_rejected [of share_server "handle_request SFTP_READ 7" std_ids willing_host "[Sftp_handle_remove 7]" "handle_request SFTP_CLOSE 7"]
    closed_handle_rejected [of share_server "handle_request SFTP_READDIR 7" std_ids willing_host "[]" "handle_request SFTP_CLOSE 7"]
    closed_handle_rejected [of one_file_server "handle_request SFTP_READ 7" std_ids willing_host "[]" "handle_request SFTP_CLOSE 7"]
  by (simp add: handle_request_def request_def share_server_def one_file_server_def)

section \<open>Opening a file\<close>

lemmas open_consts = NotOpen_def ReadOnly_def WriteOnly_def Append_def Truncate_def
  SSH_FXF_READ_def SSH_FXF_WRITE_def SSH_FXF_APPEND_def SSH_FXF_TRUNC_def

lemma open_mode_write_only: "open_mode SSH_FXF_WRITE = WriteOnly OR Append"
  by (simp add: open_mode_def Let_def has_flag_def open_consts)

lemma open_mode_append:
  "flags \<noteq> SSH_FXF_WRITE \<Longrightarrow> has_flag (open_mode flags) Append \<longleftrightarrow> has_flag flags SSH_FXF_APPEND"
  by (cases "has_flag flags SSH_FXF_READ"; cases "has_flag flags SSH_FXF_WRITE";
      cases "has_flag flags SSH_FXF_APPEND"; cases "has_flag flags SSH_FXF_TRUNC")
     (simp_all add: open_mode_def Let_def, simp_all add: has_flag_def open_consts)

lemma open_mode_write:
  "has_flag flags SSH_FXF_WRITE \<Longrightarrow> has_flag (open_mode flags) WriteOnly"
  by (cases "has_flag flags SSH_FXF_READ"; 
      cases "has_flag flags SSH_FXF_APPEND"; cases "has_flag flags SSH_FXF_TRUNC"; cases "flags = SSH_FXF_WRITE")
     (simp_all add: open_mode_def Let_def, simp_all add: has_flag_def open_consts)


lemmas call_defs = call_bool_def call_int_def call_str_def call_list_def call_attr_def call_data_def

lemma open_call:
  assumes "validate_path (source_path S) (msg_filename msg)"
  shows "concat (map opens (new_calls tr (snd (snd (handle_open S E msg tr))))) =
     [(msg_filename msg, open_mode (msg_flags msg))]"
  using assms
  by (simp add: handle_open_def Let_def call_defs new_calls_def split: prod.splits)


text \<open>
  C5. An OPEN request with a validated path opens the file once, with the mode computed
  from the flag word. When the flag word is exactly WRITE the mode is write with append.
  When the flag word has WRITE and differs from WRITE alone, the mode is write-enabled and
  has append exactly when the flag word has APPEND.
\<close>

theorem open_append_workaround:
  "msg_type msg = SFTP_OPEN \<Longrightarrow> validate_path (source_path S) (msg_filename msg) \<Longrightarrow>
   (\<exists>r S' tr'. process_message K S E msg tr = Some (r, S', tr') \<and>
      concat (map opens (new_calls tr tr')) = [(msg_filename msg, open_mode (msg_flags msg))]) \<and>
   (msg_flags msg = SSH_FXF_WRITE \<longrightarrow> open_mode (msg_flags msg) = WriteOnly OR Append) \<and>
   (has_flag (msg_flags msg) SSH_FXF_WRITE \<and> msg_flags msg \<noteq> SSH_FXF_WRITE \<longrightarrow>
      has_flag (open_mode (msg_flags msg)) WriteOnly \<and>
      (has_flag (open_mode (msg_flags msg)) Append \<longleftrightarrow> has_flag (msg_flags msg) SSH_FXF_APPEND))"
proof (intro conjI impI)
  assume t: "msg_type msg = SFTP_OPEN" and v: "validate_path (source_path S) (msg_filename msg)"
  obtain r S' tr' where h: "handle_open S E msg tr = (r, S', tr')"
    by (cases "handle_open S E msg tr") auto
  with open_call [OF v, where E = E and tr = tr] have
    "concat (map opens (new_calls tr tr')) = [(msg_filename msg, open_mode (msg_flags msg))]"
    by simp
  with t h show "\<exists>r S' tr'. process_message K S E msg tr = Some (r, S', tr') \<and>
      concat (map opens (new_calls tr tr')) = [(msg_filename msg, open_mode (msg_flags msg))]"
    by (simp add: process_message_def)
next
  assume "msg_flags msg = SSH_FXF_WRITE"
  then show "open_mode (msg_flags msg) = WriteOnly OR Append"
    by (simp add: open_mode_write_only)
next
  assume "has_flag (msg_flags msg) SSH_FXF_WRITE \<and> msg_flags msg \<noteq> SSH_FXF_WRITE"
  then show "has_flag (open_mode (msg_flags msg)) WriteOnly"
    by (simp add: open_mode_write)
next
  assume "has_flag (msg_flags msg) SSH_FXF_WRITE \<and> msg_flags msg \<noteq> SSH_FXF_WRITE"
  then show "has_flag (open_mode (msg_flags msg)) Append \<longleftrightarrow> has_flag (msg_flags msg) SSH_FXF_APPEND"
    by (simp add: open_mode_append)
qed

theorem open_append_workaround_witness:
  "(\<exists>r S' tr'. process_message std_ids share_server willing_host
        (open_request ''/srv/share/log'' SSH_FXF_WRITE) [] = Some (r, S', tr') \<and>
      concat (map opens (new_calls [] tr')) = [(''/srv/share/log'', WriteOnly OR Append)]) \<and>
   (\<exists>r S' tr'. process_message std_ids share_server willing_host
        (open_request ''/srv/share/log'' (SSH_FXF_WRITE OR SSH_FXF_TRUNC)) [] = Some (r, S', tr') \<and>
      concat (map opens (new_calls [] tr')) = [(''/srv/share/log'', WriteOnly OR Truncate)]) \<and>
   \<not> has_flag (WriteOnly OR Truncate) Append"
proof -
  have t: "msg_type (open_request ''/srv/share/log'' fl) = SFTP_OPEN" for fl
    by (simp add: open_request_def request_def)
  have v: "validate_path (source_path share_server) (msg_filename (open_request ''/srv/share/log'' fl))" for fl
    by (simp add: open_request_def request_def validate_path_iff share_server_def)
  have f: "msg_flags (open_request ''/srv/share/log'' fl) = fl"
    "msg_filename (open_request ''/srv/share/log'' fl) = ''/srv/share/log''" for fl
    by (simp_all add: open_request_def request_def)
  have m: "open_mode (SSH_FXF_WRITE OR SSH_FXF_TRUNC) = WriteOnly OR Truncate"
    by (simp add: open_mode_def Let_def has_flag_def open_consts)
  have n: "has_flag (SSH_FXF_WRITE OR SSH_FXF_TRUNC) SSH_FXF_WRITE"
    "SSH_FXF_WRITE OR SSH_FXF_TRUNC \<noteq> SSH_FXF_WRITE"
    "\<not> has_flag (SSH_FXF_WRITE OR SSH_FXF_TRUNC) SSH_FXF_APPEND"
    by (simp_all add: has_flag_def open_consts)
  show ?thesis
    using open_append_workaround [OF t [of SSH_FXF_WRITE] v [of SSH_FXF_WRITE],
        where K = std_ids and E = willing_host and tr = "[]"]
      open_append_workaround [OF t [of "SSH_FXF_WRITE OR SSH_FXF_TRUNC"] v [of "SSH_FXF_WRITE OR SSH_FXF_TRUNC"],
        where K = std_ids and E = willing_host and tr = "[]"]
    by (simp add: f m n open_mode_write_only)
qed

section \<open>Renaming\<close>

lemma rename_validated:
  assumes "validate_path (source_path S) (msg_filename msg)"
    and "validate_path (source_path S) (msg_data msg)"
  shows
    "(let source = msg_filename msg; target = msg_data msg;
          is_symlink = as_bool (answers E tr (Query IsSymLink source));
          tr0 = tr @ [Query IsSymLink source];
          exists = as_bool (answers E tr0 (Query Exists source));
          tr1 = (if is_symlink then tr0 else tr0 @ [Query Exists source]);
          target_exists = as_bool (answers E tr1 (Query Exists target));
          tr2 = tr1 @ [Query Exists target];
          removed = as_bool (answers E tr2 (FileOps_remove target));
          tr3 = (if target_exists then tr2 @ [FileOps_remove target] else tr2);
          renamed = as_bool (answers E tr3 (FileOps_rename source target))
      in handle_rename S E msg tr =
         (if \<not> is_symlink \<and> \<not> exists
          then (Reply_status SSH_FX_NO_SUCH_FILE (Some ''no such file''), S, tr1)
          else if target_exists \<and> \<not> removed
          then (Reply_status SSH_FX_FAILURE None, S, tr3)
          else (if renamed then Reply_status SSH_FX_OK None
                else Reply_status SSH_FX_FAILURE None,
                S, tr3 @ [FileOps_rename source target])))"
proof (cases "as_bool (answers E tr (Query IsSymLink (msg_filename msg)))")
  case True
  with assms show ?thesis
    by (simp add: handle_rename_def symlink_or_exists_answers Let_def call_bool_def
        reply_failure_def reply_ok_def)
next
  case False
  with assms show ?thesis
    by (simp add: handle_rename_def symlink_or_exists_answers Let_def call_bool_def
        reply_failure_def reply_ok_def)
qed

text \<open>
  C6. A RENAME (or posix-rename) request whose source and target both pass the path
  check. The host is asked whether the source is a symbolic link and, if it is not,
  whether it exists. When both answers are no, the reply is NO_SUCH_FILE and nothing else
  is done. Otherwise the host is asked whether the target exists; an existing target is
  removed first, and a failed removal is answered with FAILURE with no rename attempted;
  then the source is renamed to the target, answered with OK on success and FAILURE if
  the rename fails. The server is unchanged in every case.
\<close>

theorem rename_overwrites_target:
  "is_rename msg \<Longrightarrow> validate_path (source_path S) (msg_filename msg) \<Longrightarrow>
   validate_path (source_path S) (msg_data msg) \<Longrightarrow>
   (let source = msg_filename msg; target = msg_data msg;
        is_symlink = as_bool (answers E tr (Query IsSymLink source));
        tr0 = tr @ [Query IsSymLink source];
        exists = as_bool (answers E tr0 (Query Exists source));
        tr1 = (if is_symlink then tr0 else tr0 @ [Query Exists source]);
        target_exists = as_bool (answers E tr1 (Query Exists target));
        tr2 = tr1 @ [Query Exists target];
        removed = as_bool (answers E tr2 (FileOps_remove target));
        tr3 = (if target_exists then tr2 @ [FileOps_remove target] else tr2);
        renamed = as_bool (answers E tr3 (FileOps_rename source target))
    in process_message K S E msg tr =
         Some (if \<not> is_symlink \<and> \<not> exists
               then (Reply_status SSH_FX_NO_SUCH_FILE (Some ''no such file''), S, tr1)
               else if target_exists \<and> \<not> removed
               then (Reply_status SSH_FX_FAILURE None, S, tr3)
               else (if renamed then Reply_status SSH_FX_OK None
                     else Reply_status SSH_FX_FAILURE None,
                     S, tr3 @ [FileOps_rename source target])))"
proof -
  assume rn: "is_rename msg" and vs: "validate_path (source_path S) (msg_filename msg)"
    and vt: "validate_path (source_path S) (msg_data msg)"
  show ?thesis
    using rename_validated [OF vs vt, of E tr]
    by (simp only: process_rename [OF rn] option.inject)
qed

theorem rename_overwrites_target_witness:
  "process_message std_ids share_server willing_host
       (request SFTP_RENAME ''/srv/share/a'' ''/srv/share/b'') [] =
     Some (Reply_status SSH_FX_OK None, share_server,
       [Query IsSymLink ''/srv/share/a'', Query Exists ''/srv/share/a'',
        Query Exists ''/srv/share/b'', FileOps_remove ''/srv/share/b'',
        FileOps_rename ''/srv/share/a'' ''/srv/share/b'']) \<and>
   process_message std_ids share_server dangling_host
       (request SFTP_RENAME ''/srv/share/a'' ''/srv/share/b'') [] =
     Some (Reply_status SSH_FX_OK None, share_server,
       [Query IsSymLink ''/srv/share/a'', Query Exists ''/srv/share/b'',
        FileOps_rename ''/srv/share/a'' ''/srv/share/b'']) \<and>
   process_message std_ids share_server barren_host
       (request SFTP_RENAME ''/srv/share/a'' ''/srv/share/b'') [] =
     Some (Reply_status SSH_FX_NO_SUCH_FILE (Some ''no such file''), share_server,
       [Query IsSymLink ''/srv/share/a'', Query Exists ''/srv/share/a''])"
proof -
  let ?m = "request SFTP_RENAME ''/srv/share/a'' ''/srv/share/b''"
  have rn: "is_rename ?m" by (simp add: is_rename_def request_def)
  have vs: "validate_path (source_path share_server) (msg_filename ?m)"
    by (simp add: validate_path_iff share_server_def request_def)
  have vt: "validate_path (source_path share_server) (msg_data ?m)"
    by (simp add: validate_path_iff share_server_def request_def)
  have f: "msg_filename ?m = ''/srv/share/a''" "msg_data ?m = ''/srv/share/b''"
    by (simp_all add: request_def)
  have a: "answers willing_host = willing_answers" "answers dangling_host = dangling_answers"
    "answers barren_host = (\<lambda>tr c. A_bool False)"
    by (simp_all add: willing_host_def dangling_host_def barren_host_def)
  have "process_message std_ids share_server willing_host ?m [] =
     Some (Reply_status SSH_FX_OK None, share_server,
       [Query IsSymLink ''/srv/share/a'', Query Exists ''/srv/share/a'',
        Query Exists ''/srv/share/b'', FileOps_remove ''/srv/share/b'',
        FileOps_rename ''/srv/share/a'' ''/srv/share/b''])"
    using rename_overwrites_target [OF rn vs vt, of willing_host "[]" std_ids]
    unfolding f a Let_def by simp
  moreover have "process_message std_ids share_server dangling_host ?m [] =
     Some (Reply_status SSH_FX_OK None, share_server,
       [Query IsSymLink ''/srv/share/a'', Query Exists ''/srv/share/b'',
        FileOps_rename ''/srv/share/a'' ''/srv/share/b''])"
    using rename_overwrites_target [OF rn vs vt, of dangling_host "[]" std_ids]
    unfolding f a Let_def by simp
  moreover have "process_message std_ids share_server barren_host ?m [] =
     Some (Reply_status SSH_FX_NO_SUCH_FILE (Some ''no such file''), share_server,
       [Query IsSymLink ''/srv/share/a'', Query Exists ''/srv/share/a''])"
    using rename_overwrites_target [OF rn vs vt, of barren_host "[]" std_ids]
    unfolding f a Let_def by simp
  ultimately show ?thesis by simp
qed

section \<open>Creating a directory\<close>

text \<open>The reverse mapping in terms of the library's search for the first match.\<close>

lemma reverse_id_for_find:
  "reverse_id_for M v r = (case List.find (\<lambda>p. snd p = v) M of None \<Rightarrow> r | Some p \<Rightarrow> fst p)"
proof (induction M)
  case Nil
  show ?case by (simp add: reverse_id_for_def)
next
  case (Cons x xs)
  show ?case
  proof (cases "snd x = v")
    case True
    then show ?thesis by (auto simp: reverse_id_for_def)
  next
    case False
    then have "find_if (\<lambda>p. v = snd p) (x # xs) = Suc (find_if (\<lambda>p. v = snd p) xs)"
      by auto
    with False Cons show ?thesis by (auto simp: reverse_id_for_def Let_def)
  qed
qed

text \<open>The nine permission bits of a request, as \<open>to_qt_permissions\<close> hands them to Qt.\<close>

lemma has_flag_or: "has_flag (a OR b) f \<longleftrightarrow> has_flag a f \<or> has_flag b f"
  by (simp add: has_flag_def bit.conj_disj_distrib2 or_eq_0_iff)

lemma has_flag_if: "has_flag (if c then x else 0) f \<longleftrightarrow> c \<and> has_flag x f"
  by (simp add: has_flag_def)

lemmas permission_consts = read_user_def write_user_def exec_user_def read_group_def
  write_group_def exec_group_def read_other_def write_other_def exec_other_def
  ReadUser_def WriteUser_def ExeUser_def ReadGroup_def WriteGroup_def ExeGroup_def
  ReadOther_def WriteOther_def ExeOther_def

lemma qt_flags_distinct:
  "has_flag ReadUser ReadUser" "\<not> has_flag WriteUser ReadUser" "\<not> has_flag ExeUser ReadUser"
  "\<not> has_flag ReadGroup ReadUser" "\<not> has_flag WriteGroup ReadUser" "\<not> has_flag ExeGroup ReadUser"
  "\<not> has_flag ReadOther ReadUser" "\<not> has_flag WriteOther ReadUser" "\<not> has_flag ExeOther ReadUser"
  "\<not> has_flag ReadUser WriteUser" "has_flag WriteUser WriteUser" "\<not> has_flag ExeUser WriteUser"
  "\<not> has_flag ReadGroup WriteUser" "\<not> has_flag WriteGroup WriteUser" "\<not> has_flag ExeGroup WriteUser"
  "\<not> has_flag ReadOther WriteUser" "\<not> has_flag WriteOther WriteUser" "\<not> has_flag ExeOther WriteUser"
  "\<not> has_flag ReadUser ExeUser" "\<not> has_flag WriteUser ExeUser" "has_flag ExeUser ExeUser"
  "\<not> has_flag ReadGroup ExeUser" "\<not> has_flag WriteGroup ExeUser" "\<not> has_flag ExeGroup ExeUser"
  "\<not> has_flag ReadOther ExeUser" "\<not> has_flag WriteOther ExeUser" "\<not> has_flag ExeOther ExeUser"
  "\<not> has_flag ReadUser ReadGroup" "\<not> has_flag WriteUser ReadGroup" "\<not> has_flag ExeUser ReadGroup"
  "has_flag ReadGroup ReadGroup" "\<not> has_flag WriteGroup ReadGroup" "\<not> has_flag ExeGroup ReadGroup"
  "\<not> has_flag ReadOther ReadGroup" "\<not> has_flag WriteOther ReadGroup" "\<not> has_flag ExeOther ReadGroup"
  "\<not> has_flag ReadUser WriteGroup" "\<not> has_flag WriteUser WriteGroup" "\<not> has_flag ExeUser WriteGroup"
  "\<not> has_flag ReadGroup WriteGroup" "has_flag WriteGroup WriteGroup" "\<not> has_flag ExeGroup WriteGroup"
  "\<not> has_flag ReadOther WriteGroup" "\<not> has_flag WriteOther WriteGroup" "\<not> has_flag ExeOther WriteGroup"
  "\<not> has_flag ReadUser ExeGroup" "\<not> has_flag WriteUser ExeGroup" "\<not> has_flag ExeUser ExeGroup"
  "\<not> has_flag ReadGroup ExeGroup" "\<not> has_flag WriteGroup ExeGroup" "has_flag ExeGroup ExeGroup"
  "\<not> has_flag ReadOther ExeGroup" "\<not> has_flag WriteOther ExeGroup" "\<not> has_flag ExeOther ExeGroup"
  "\<not> has_flag ReadUser ReadOther" "\<not> has_flag WriteUser ReadOther" "\<not> has_flag ExeUser ReadOther"
  "\<not> has_flag ReadGroup ReadOther" "\<not> has_flag WriteGroup ReadOther" "\<not> has_flag ExeGroup ReadOther"
  "has_flag ReadOther ReadOther" "\<not> has_flag WriteOther ReadOther" "\<not> has_flag ExeOther ReadOther"
  "\<not> has_flag ReadUser WriteOther" "\<not> has_flag WriteUser WriteOther" "\<not> has_flag ExeUser WriteOther"
  "\<not> has_flag ReadGroup WriteOther" "\<not> has_flag WriteGroup WriteOther" "\<not> has_flag ExeGroup WriteOther"
  "\<not> has_flag ReadOther WriteOther" "has_flag WriteOther WriteOther" "\<not> has_flag ExeOther WriteOther"
  "\<not> has_flag ReadUser ExeOther" "\<not> has_flag WriteUser ExeOther" "\<not> has_flag ExeUser ExeOther"
  "\<not> has_flag ReadGroup ExeOther" "\<not> has_flag WriteGroup ExeOther" "\<not> has_flag ExeGroup ExeOther"
  "\<not> has_flag ReadOther ExeOther" "\<not> has_flag WriteOther ExeOther" "has_flag ExeOther ExeOther"
  by (simp_all add: has_flag_def permission_consts)

lemma to_qt_permissions_flags:
  "has_flag (to_qt_permissions m) ReadUser \<longleftrightarrow> has_flag m read_user"
  "has_flag (to_qt_permissions m) WriteUser \<longleftrightarrow> has_flag m write_user"
  "has_flag (to_qt_permissions m) ExeUser \<longleftrightarrow> has_flag m exec_user"
  "has_flag (to_qt_permissions m) ReadGroup \<longleftrightarrow> has_flag m read_group"
  "has_flag (to_qt_permissions m) WriteGroup \<longleftrightarrow> has_flag m write_group"
  "has_flag (to_qt_permissions m) ExeGroup \<longleftrightarrow> has_flag m exec_group"
  "has_flag (to_qt_permissions m) ReadOther \<longleftrightarrow> has_flag m read_other"
  "has_flag (to_qt_permissions m) WriteOther \<longleftrightarrow> has_flag m write_other"
  "has_flag (to_qt_permissions m) ExeOther \<longleftrightarrow> has_flag m exec_other"
  by (simp_all add: to_qt_permissions_def has_flag_or has_flag_if qt_flags_distinct)

lemma and_if_zero: "(if c then x else 0) AND k = (if c then x AND k else (0 :: 32 word))"
  by simp

lemma to_qt_permissions_mask: "to_qt_permissions m AND 0x777 = to_qt_permissions m"
  by (simp add: to_qt_permissions_def bit.conj_disj_distrib2 and_if_zero permission_consts)

lemma mkdir_ok:
  assumes "handle_mkdir S E msg tr = (Reply_status SSH_FX_OK None, S', tr')"
  shows "(let filename = msg_filename msg; attr = msg_attr msg;
        tr1 = tr @ [QDir_mkdir filename,
                    FileOps_setPermissions filename (to_qt_permissions (attr_permissions attr))];
        parent = qfi_path E filename;
        parent_owner = word_of_int (as_int (answers E tr1 (Query OwnerId parent)));
        parent_group = word_of_int (as_int (answers E (tr1 @ [Query OwnerId parent]) (Query GroupId parent)))
    in validate_path (source_path S) filename \<and> S' = S \<and>
       tr' = tr1 @ [Query OwnerId parent, Query GroupId parent,
                Platform_chown filename (reverse_uid_for S (attr_uid attr) parent_owner)
                  (reverse_gid_for S (attr_gid attr) parent_group)])"
  using assms
  by (auto simp: handle_mkdir_def Let_def call_defs case_prod_beta reply_failure_def reply_ok_def
      reply_perm_denied_def split: if_splits)

text \<open>
  C9. A MKDIR request that is answered with OK has passed the path check and made five
  calls: it created the directory; it applied permissions in which each of the nine Qt
  permission flags is set exactly when the matching bit of the request's permissions is
  set, and no other flag; it read the owner and the group of the parent directory; and
  as its last call it invoked the platform chown on the new directory. The uid given to
  chown is the reverse mapping of the request's uid: the host id of the first entry of
  the uid map whose remote id is the request's uid, and the parent's owner when no entry
  has that remote id. The gid is the same with the gid map, the request's gid and the
  parent's group. With the uid map [(1000, 2000)], a parent owned by 1000 and the request
  uid 2000, chown is called with uid 1000.
\<close>

theorem mkdir_chown_parent_fallback:
  "msg_type msg = SFTP_MKDIR \<Longrightarrow>
   process_message K S E msg tr = Some (Reply_status SSH_FX_OK None, S', tr') \<Longrightarrow>
   (let filename = msg_filename msg; attr = msg_attr msg;
           perm = to_qt_permissions (attr_permissions attr);
           tr1 = tr @ [QDir_mkdir filename, FileOps_setPermissions filename perm];
           parent = qfi_path E filename;
           parent_owner = (word_of_int (as_int (answers E tr1 (Query OwnerId parent))) :: c_int);
           parent_group = (word_of_int (as_int (answers E (tr1 @ [Query OwnerId parent])
                                                  (Query GroupId parent))) :: c_int);
           uid = reverse_uid_for S (attr_uid attr) parent_owner;
           gid = reverse_gid_for S (attr_gid attr) parent_group
       in validate_path (source_path S) filename \<and> S' = S \<and>
          tr' = tr1 @ [Query OwnerId parent, Query GroupId parent,
                       Platform_chown filename uid gid] \<and>
          uid = (case List.find (\<lambda>p. snd p = attr_uid attr) (uid_mappings S) of
                   None \<Rightarrow> parent_owner | Some p \<Rightarrow> fst p) \<and>
          gid = (case List.find (\<lambda>p. snd p = attr_gid attr) (gid_mappings S) of
                   None \<Rightarrow> parent_group | Some p \<Rightarrow> fst p) \<and>
          (has_flag perm ReadUser \<longleftrightarrow> has_flag (attr_permissions attr) read_user) \<and>
          (has_flag perm WriteUser \<longleftrightarrow> has_flag (attr_permissions attr) write_user) \<and>
          (has_flag perm ExeUser \<longleftrightarrow> has_flag (attr_permissions attr) exec_user) \<and>
          (has_flag perm ReadGroup \<longleftrightarrow> has_flag (attr_permissions attr) read_group) \<and>
          (has_flag perm WriteGroup \<longleftrightarrow> has_flag (attr_permissions attr) write_group) \<and>
          (has_flag perm ExeGroup \<longleftrightarrow> has_flag (attr_permissions attr) exec_group) \<and>
          (has_flag perm ReadOther \<longleftrightarrow> has_flag (attr_permissions attr) read_other) \<and>
          (has_flag perm WriteOther \<longleftrightarrow> has_flag (attr_permissions attr) write_other) \<and>
          (has_flag perm ExeOther \<longleftrightarrow> has_flag (attr_permissions attr) exec_other) \<and>
          perm AND 0x777 = perm)"
proof -
  assume t: "msg_type msg = SFTP_MKDIR"
    and pm: "process_message K S E msg tr = Some (Reply_status SSH_FX_OK None, S', tr')"
  from t pm have "handle_mkdir S E msg tr = (Reply_status SSH_FX_OK None, S', tr')"
    by (simp add: process_message_def)
  from mkdir_ok [OF this] show ?thesis
    by (simp add: Let_def to_qt_permissions_flags to_qt_permissions_mask
        reverse_uid_for_def reverse_gid_for_def reverse_id_for_find)
qed

theorem mkdir_chown_parent_fallback_witness:
  "process_message std_ids share_server other_owner_host
       (mkdir_request ''/srv/share/d'' 493 2000 3000) [] =
     Some (Reply_status SSH_FX_OK None, share_server,
       [QDir_mkdir ''/srv/share/d'', FileOps_setPermissions ''/srv/share/d'' 0x755,
        Query OwnerId ''/srv/share'', Query GroupId ''/srv/share'',
        Platform_chown ''/srv/share/d'' 1000 1002]) \<and>
   process_message std_ids share_server willing_host
       (mkdir_request ''/srv/share/d'' 493 2000 3000) [] =
     Some (Reply_status SSH_FX_OK None, share_server,
       [QDir_mkdir ''/srv/share/d'', FileOps_setPermissions ''/srv/share/d'' 0x755,
        Query OwnerId ''/srv/share'', Query GroupId ''/srv/share'',
        Platform_chown ''/srv/share/d'' 1000 1000]) \<and>
   uid_mappings share_server = [(1000, 2000)] \<and> gid_mappings share_server = [(1000, 2000)]"
proof -
  let ?m = "mkdir_request ''/srv/share/d'' 493 2000 3000"
  have t: "msg_type ?m = SFTP_MKDIR" by (simp add: mkdir_request_def request_def)
  have a: "answers willing_host = willing_answers" "qfi_path willing_host = (\<lambda>p. ''/srv/share'')"
    "answers other_owner_host = other_owner_answers"
    "qfi_path other_owner_host = (\<lambda>p. ''/srv/share'')"
    by (simp_all add: willing_host_def other_owner_host_def)
  have f: "msg_filename ?m = ''/srv/share/d''" "attr_uid (msg_attr ?m) = 2000"
    "attr_gid (msg_attr ?m) = 3000" "attr_permissions (msg_attr ?m) = 493"
    by (simp_all add: mkdir_request_def request_def zero_attr_def)
  have v: "validate_path (source_path share_server) ''/srv/share/d''"
    by (simp add: validate_path_iff share_server_def)
  have m: "uid_mappings share_server = [(1000, 2000)]" "gid_mappings share_server = [(1000, 2000)]"
    by (simp_all add: share_server_def)
  have p: "to_qt_permissions 493 = 0x755"
    by (simp add: to_qt_permissions_def has_flag_def permission_consts)
  have rv: "reverse_uid_for share_server 2000 r = 1000" "reverse_gid_for share_server 3000 r = r" for r
    by (simp_all add: reverse_uid_for_def reverse_gid_for_def reverse_id_for_def m)
  have h1: "process_message std_ids share_server other_owner_host ?m [] =
     Some (Reply_status SSH_FX_OK None, share_server,
       [QDir_mkdir ''/srv/share/d'', FileOps_setPermissions ''/srv/share/d'' 0x755,
        Query OwnerId ''/srv/share'', Query GroupId ''/srv/share'',
        Platform_chown ''/srv/share/d'' 1000 1002])"
    using v
    by (simp add: process_message_def t handle_mkdir_def f a Let_def call_defs reply_ok_def p rv)
  have h2: "process_message std_ids share_server willing_host ?m [] =
     Some (Reply_status SSH_FX_OK None, share_server,
       [QDir_mkdir ''/srv/share/d'', FileOps_setPermissions ''/srv/share/d'' 0x755,
        Query OwnerId ''/srv/share'', Query GroupId ''/srv/share'',
        Platform_chown ''/srv/share/d'' 1000 1000])"
    using v
    by (simp add: process_message_def t handle_mkdir_def f a Let_def call_defs reply_ok_def p rv)
  have "validate_path (source_path share_server) (msg_filename ?m)"
    using mkdir_chown_parent_fallback [OF t h1] by (simp only: Let_def)
  moreover have "validate_path (source_path share_server) (msg_filename ?m)"
    using mkdir_chown_parent_fallback [OF t h2] by (simp only: Let_def)
  ultimately show ?thesis using h1 h2 m by simp
qed

section \<open>Reading a directory\<close>

lemma readdir_loop_rest:
  "fst (snd (readdir_loop K S E n es names tr)) = drop n es"
proof (induction n arbitrary: es names tr)
  case 0
  show ?case by simp
next
  case (Suc n)
  show ?case
  proof (cases es)
    case Nil
    then show ?thesis by simp
  next
    case (Cons e es')
    with Suc show ?thesis by (simp add: Let_def case_prod_beta)
  qed
qed

lemma readdir_loop_names:
  "map fst (fst (readdir_loop K S E n es names tr)) =
     map fst names @ map (qfi_fileName E) (take n es)"
proof (induction n arbitrary: es names tr)
  case 0
  show ?case by simp
next
  case (Suc n)
  show ?case
  proof (cases es)
    case Nil
    then show ?thesis by simp
  next
    case (Cons e es')
    with Suc show ?thesis by (simp add: Let_def case_prod_beta)
  qed
qed

lemma readdir_eof:
  "open_dir_handles S (msg_handle msg) = Some [] \<Longrightarrow>
   handle_readdir K S E msg tr = (Reply_status SSH_FX_EOF None, S, tr)"
  by (simp add: handle_readdir_def handle_from_def)

lemma readdir_names:
  assumes "open_dir_handles S (msg_handle msg) = Some es" and "es \<noteq> []"
  shows "\<exists>names S' tr'. handle_readdir K S E msg tr = (Reply_names names, S', tr') \<and>
     map fst names = map (qfi_fileName E) (take 50 es) \<and>
     open_dir_handles S' = (open_dir_handles S)(msg_handle msg \<mapsto> drop 50 es)"
proof -
  have m: "min (length es) 50 = 50 \<or> min (length es) 50 = length es" by linarith
  then have t: "take (min (length es) 50) es = take 50 es" "drop (min (length es) 50) es = drop 50 es"
    by auto
  show ?thesis
    using assms
    by (simp add: handle_readdir_def handle_from_def Let_def case_prod_beta
        max_num_entries_per_packet_def readdir_loop_rest readdir_loop_names t)
qed

lemma readdir_times_all:
  "open_dir_handles S (msg_handle msg) = Some es \<Longrightarrow>
   \<exists>n chunks S' tr'. readdir_times K E msg n S tr =
       (chunks, Some (Reply_status SSH_FX_EOF None), S', tr') \<and>
     map fst (concat chunks) = map (qfi_fileName E) es \<and>
     (\<forall>c \<in> set chunks. c \<noteq> [] \<and> length c \<le> 50)"
proof (induction es arbitrary: S tr rule: length_induct)
  case (1 es)
  show ?case
  proof (cases "es = []")
    case True
    with 1(2) have "readdir_times K E msg (Suc 0) S tr = ([], Some (Reply_status SSH_FX_EOF None), S, tr)"
      by (simp add: readdir_eof)
    with True show ?thesis by (intro exI [of _ "Suc 0"]) simp
  next
    case False
    from readdir_names [OF 1(2) False, of K E tr] obtain names S1 tr1 where
      h: "handle_readdir K S E msg tr = (Reply_names names, S1, tr1)"
      and nm: "map fst names = map (qfi_fileName E) (take 50 es)"
      and tb: "open_dir_handles S1 = (open_dir_handles S)(msg_handle msg \<mapsto> drop 50 es)"
      by blast
    from False have "length (drop 50 es) < length es" by simp
    moreover from tb have "open_dir_handles S1 (msg_handle msg) = Some (drop 50 es)" by simp
    ultimately obtain n chunks S' tr' where
      r: "readdir_times K E msg n S1 tr1 = (chunks, Some (Reply_status SSH_FX_EOF None), S', tr')"
      and c: "map fst (concat chunks) = map (qfi_fileName E) (drop 50 es)"
      and b: "\<forall>c \<in> set chunks. c \<noteq> [] \<and> length c \<le> 50"
      using 1(1) by blast
    from h r have "readdir_times K E msg (Suc n) S tr =
        (names # chunks, Some (Reply_status SSH_FX_EOF None), S', tr')"
      by simp
    moreover have "map fst (concat (names # chunks)) = map (qfi_fileName E) es"
    proof -
      have "map fst (concat (names # chunks)) = map fst names @ map fst (concat chunks)"
        by simp
      also have "\<dots> = map (qfi_fileName E) (take 50 es @ drop 50 es)"
        unfolding nm c map_append ..
      finally show ?thesis by simp
    qed
    moreover from nm False have "names \<noteq> [] \<and> length names \<le> 50"
      by (metis length_map length_take min.cobounded2 map_is_Nil_conv take_eq_Nil zero_neq_numeral)
    ultimately show ?thesis using b by (intro exI [of _ "Suc n"]) simp
  qed
qed


lemma opendir_snapshot:
  assumes "handle_opendir S0 E omsg tr0 = (Reply_handle k, S1, tr1)"
    and "k \<notin> dom (open_dir_handles S0)"
  shows "open_dir_handles S1 k =
     Some (as_list (answers E (tr0 @ [Query DirExists (msg_filename omsg),
                                      Query IsReadable (msg_filename omsg)])
                     (Query EntryInfoList (msg_filename omsg))))"
  using assms
  by (auto simp: handle_opendir_def Let_def call_defs case_prod_beta emplace_def
      reply_perm_denied_def reply_failure_def split: if_splits)

text \<open>
  C7. An OPENDIR that replies with a handle stores the listing taken at that moment under
  the handle (the handle is the address of the new list, which is not the address of a
  list that is still open). A READDIR on a handle of the directory table replies EOF
  exactly when the stored list is empty; otherwise it replies with the names of the first
  50 entries of the list, or of all of them when there are fewer, in order, and leaves the
  remaining entries under the handle. A client that repeats READDIR until EOF receives
  lists of at most 50 names whose concatenation is, in order, the stored list.
\<close>

theorem readdir_returns_snapshot:
  "(msg_type omsg = SFTP_OPENDIR \<and>
    process_message K S0 E omsg tr0 = Some (Reply_handle k, S1, tr1) \<and>
    k \<notin> dom (open_dir_handles S0) \<longrightarrow>
      open_dir_handles S1 k =
        Some (as_list (answers E (tr0 @ [Query DirExists (msg_filename omsg),
                                         Query IsReadable (msg_filename omsg)])
                        (Query EntryInfoList (msg_filename omsg))))) \<and>
   (msg_type msg = SFTP_READDIR \<and> open_dir_handles S (msg_handle msg) = Some es \<longrightarrow>
      (\<exists>r S' tr'. process_message K S E msg tr = Some (r, S', tr') \<and>
         (r = Reply_status SSH_FX_EOF None \<longleftrightarrow> es = []) \<and>
         (es = [] \<longrightarrow> S' = S) \<and>
         (es \<noteq> [] \<longrightarrow>
            (\<exists>names. r = Reply_names names \<and> length names \<le> 50 \<and>
               map fst names = map (qfi_fileName E) (take 50 es)) \<and>
            open_dir_handles S' = (open_dir_handles S)(msg_handle msg \<mapsto> drop 50 es))) \<and>
      (\<exists>n chunks S' tr'.
         readdir_times K E msg n S tr = (chunks, Some (Reply_status SSH_FX_EOF None), S', tr') \<and>
         map fst (concat chunks) = map (qfi_fileName E) es \<and>
         (\<forall>c \<in> set chunks. c \<noteq> [] \<and> length c \<le> 50)))"
proof (intro conjI impI)
  assume "msg_type omsg = SFTP_OPENDIR \<and>
    process_message K S0 E omsg tr0 = Some (Reply_handle k, S1, tr1) \<and>
    k \<notin> dom (open_dir_handles S0)"
  then show "open_dir_handles S1 k =
        Some (as_list (answers E (tr0 @ [Query DirExists (msg_filename omsg),
                                         Query IsReadable (msg_filename omsg)])
                        (Query EntryInfoList (msg_filename omsg))))"
    using opendir_snapshot [of S0 E omsg tr0 k S1 tr1] by (auto simp: process_message_def)
next
  assume a: "msg_type msg = SFTP_READDIR \<and> open_dir_handles S (msg_handle msg) = Some es"
  show "\<exists>r S' tr'. process_message K S E msg tr = Some (r, S', tr') \<and>
         (r = Reply_status SSH_FX_EOF None \<longleftrightarrow> es = []) \<and>
         (es = [] \<longrightarrow> S' = S) \<and>
         (es \<noteq> [] \<longrightarrow>
            (\<exists>names. r = Reply_names names \<and> length names \<le> 50 \<and>
               map fst names = map (qfi_fileName E) (take 50 es)) \<and>
            open_dir_handles S' = (open_dir_handles S)(msg_handle msg \<mapsto> drop 50 es))"
  proof (cases "es = []")
    case True
    with a show ?thesis by (simp add: process_message_def readdir_eof)
  next
    case False
    from a have "open_dir_handles S (msg_handle msg) = Some es" by simp
    from readdir_names [OF this False, of K E tr] obtain names S' tr' where
      h: "handle_readdir K S E msg tr = (Reply_names names, S', tr')"
      and nm: "map fst names = map (qfi_fileName E) (take 50 es)"
      and tb: "open_dir_handles S' = (open_dir_handles S)(msg_handle msg \<mapsto> drop 50 es)"
      by blast
    from nm have "length names = length (take 50 es)" by (metis length_map)
    then have "length names \<le> 50" by simp
    with a h nm tb False show ?thesis by (simp add: process_message_def)
  qed
next
  assume "msg_type msg = SFTP_READDIR \<and> open_dir_handles S (msg_handle msg) = Some es"
  then show "\<exists>n chunks S' tr'.
         readdir_times K E msg n S tr = (chunks, Some (Reply_status SSH_FX_EOF None), S', tr') \<and>
         map fst (concat chunks) = map (qfi_fileName E) es \<and>
         (\<forall>c \<in> set chunks. c \<noteq> [] \<and> length c \<le> 50)"
    using readdir_times_all [of S msg es K E tr] by simp
qed

theorem readdir_returns_snapshot_witness:
  "process_message std_ids share_server willing_host (request SFTP_OPENDIR ''/srv/share'' []) [] =
     Some (Reply_handle 7, listing_server,
       [Query DirExists ''/srv/share'', Query IsReadable ''/srv/share'',
        Query EntryInfoList ''/srv/share'', Make_unique, Sftp_handle_alloc 7]) \<and>
   open_dir_handles listing_server 7 = Some [''.'', ''..'', ''f''] \<and>
   (\<exists>n chunks S' tr'.
      readdir_times std_ids willing_host (handle_request SFTP_READDIR 7) n listing_server [] =
        (chunks, Some (Reply_status SSH_FX_EOF None), S', tr') \<and>
      map fst (concat chunks) = [''.'', ''..'', ''f''])"
proof -
  let ?o = "request SFTP_OPENDIR ''/srv/share'' []"
  let ?m = "handle_request SFTP_READDIR 7"
  have a: "answers willing_host = willing_answers" "qfi_fileName willing_host = (\<lambda>p. p)"
    by (simp_all add: willing_host_def)
  have v: "validate_path (source_path share_server) ''/srv/share''"
    by (simp add: validate_path_iff share_server_def)
  have o: "process_message std_ids share_server willing_host ?o [] =
     Some (Reply_handle 7, listing_server,
       [Query DirExists ''/srv/share'', Query IsReadable ''/srv/share'',
        Query EntryInfoList ''/srv/share'', Make_unique, Sftp_handle_alloc 7])"
    using v
    by (simp add: process_message_def request_def handle_opendir_def Let_def call_defs a
        emplace_def listing_server_def share_server_def)
  have d: "7 \<notin> dom (open_dir_handles share_server)" by (simp add: share_server_def)
  have t: "msg_type ?o = SFTP_OPENDIR" "msg_type ?m = SFTP_READDIR" "msg_handle ?m = 7"
    "msg_filename ?o = ''/srv/share''"
    by (simp_all add: request_def handle_request_def)
  note w = readdir_returns_snapshot [of ?o std_ids share_server willing_host "[]" 7 listing_server
      "[Query DirExists ''/srv/share'', Query IsReadable ''/srv/share'',
        Query EntryInfoList ''/srv/share'', Make_unique, Sftp_handle_alloc 7]"
      ?m listing_server "[''.'', ''..'', ''f'']" "[]"]
  have l: "open_dir_handles listing_server 7 = Some [''.'', ''..'', ''f'']"
    by (simp add: listing_server_def)
  have "msg_type ?m = SFTP_READDIR \<and>
      open_dir_handles listing_server (msg_handle ?m) = Some [''.'', ''..'', ''f'']"
    using t l by simp
  from w [THEN conjunct2, THEN mp, OF this, THEN conjunct2]
  obtain n chunks S' tr' where
    "readdir_times std_ids willing_host ?m n listing_server [] =
       (chunks, Some (Reply_status SSH_FX_EOF None), S', tr')"
    "map fst (concat chunks) = map (qfi_fileName willing_host) [''.'', ''..'', ''f'']"
    by blast
  moreover have "map (qfi_fileName willing_host) [''.'', ''..'', ''f''] = [''.'', ''..'', ''f'']"
    by (simp add: a)
  ultimately have "\<exists>n chunks S' tr'.
      readdir_times std_ids willing_host ?m n listing_server [] =
        (chunks, Some (Reply_status SSH_FX_EOF None), S', tr') \<and>
      map fst (concat chunks) = [''.'', ''..'', ''f'']"
    by metis
  with o l show ?thesis by simp
qed

section \<open>Paths that reach the host\<close>


lemma apply_attr_pair: "\<exists>b t. apply_attr S E msg f tr = (b, t)"
  by (cases "apply_attr S E msg f tr") auto

lemma state_realpath: "fst (snd (handle_realpath S E msg tr)) = S"
  by (simp add: handle_realpath_def Let_def)

lemma state_mkdir: "fst (snd (handle_mkdir S E msg tr)) = S"
  by (simp add: handle_mkdir_def Let_def case_prod_beta)

lemma state_rmdir: "fst (snd (handle_rmdir S E msg tr)) = S"
  by (simp add: handle_rmdir_def Let_def case_prod_beta)

lemma state_stat: "fst (snd (handle_stat K S E msg follow tr)) = S"
  by (simp add: handle_stat_def Let_def case_prod_beta)

lemma state_fstat: "fst (snd (handle_fstat K S E msg tr)) = S"
  by (simp add: handle_fstat_def Let_def case_prod_beta split: option.splits)

lemma state_setstat: "fst (snd (handle_setstat S E msg tr)) = S"
  by (simp add: handle_setstat_def Let_def case_prod_beta split: option.splits)

lemma state_remove: "fst (snd (handle_remove S E msg tr)) = S"
  by (simp add: handle_remove_def Let_def case_prod_beta)

lemma state_rename: "fst (snd (handle_rename S E msg tr)) = S"
  by (simp add: handle_rename_def Let_def case_prod_beta)

lemma state_readlink: "fst (snd (handle_readlink S E msg tr)) = S"
  by (simp add: handle_readlink_def Let_def case_prod_beta)

lemma state_symlink: "fst (snd (handle_symlink S E msg tr)) = S"
  by (simp add: handle_symlink_def Let_def case_prod_beta)

lemma state_extended: "fst (snd (handle_extended S E msg tr)) = S"
  by (simp add: handle_extended_def Let_def case_prod_beta state_rename split: option.splits)

lemma state_read: "fst (snd (handle_read S E msg tr)) = S"
  by (simp add: handle_read_def Let_def case_prod_beta split: option.splits)

lemma state_write: "handle_write S E msg tr = Some (r, S', tr') \<Longrightarrow> S' = S"
  by (auto simp: handle_write_def Let_def case_prod_beta split: option.splits if_splits)

lemma state_opendir:
  "open_file_handles (fst (snd (handle_opendir S E msg tr))) = open_file_handles S \<and>
   source_path (fst (snd (handle_opendir S E msg tr))) = source_path S"
  by (simp add: handle_opendir_def Let_def case_prod_beta)

lemma state_readdir:
  "open_file_handles (fst (snd (handle_readdir K S E msg tr))) = open_file_handles S \<and>
   source_path (fst (snd (handle_readdir K S E msg tr))) = source_path S"
  by (simp add: handle_readdir_def Let_def case_prod_beta split: option.splits)

lemma state_close:
  "open_file_handles (fst (snd (handle_close S E msg tr))) = (open_file_handles S)(msg_handle msg := None) \<and>
   source_path (fst (snd (handle_close S E msg tr))) = source_path S"
  by (simp add: handle_close_def Let_def case_prod_beta erase_snd)

lemma state_open:
  "source_path (fst (snd (handle_open S E msg tr))) = source_path S \<and>
   (open_file_handles (fst (snd (handle_open S E msg tr))) = open_file_handles S \<or>
    validate_path (source_path S) (msg_filename msg) \<and>
    (\<exists>k. open_file_handles (fst (snd (handle_open S E msg tr))) =
       (open_file_handles S)(k \<mapsto> msg_filename msg)))"
  by (auto simp: handle_open_def Let_def case_prod_beta emplace_def)

lemma ran_upd_cases: "x \<in> ran (m(k \<mapsto> v)) \<Longrightarrow> x = v \<or> x \<in> ran m"
  by (auto simp: ran_def split: if_splits)

lemma ran_del_cases: "x \<in> ran (m(k := None)) \<Longrightarrow> x \<in> ran m"
  by (auto simp: ran_def split: if_splits)

lemmas state_unchanged = state_realpath state_mkdir state_rmdir state_stat state_fstat
  state_setstat state_remove state_rename state_readlink state_symlink state_extended state_read

lemma stateD: "fst (snd x) = S \<Longrightarrow> x = (r, S', tr') \<Longrightarrow> S' = S"
  by simp

lemmas state_unchangedD = state_unchanged [THEN stateD]

lemma files_validated_step:
  assumes fv: "files_validated S"
    and pm: "process_message K S E msg tr = Some (r, S', tr')"
  shows "files_validated S' \<and> source_path S' = source_path S"
proof -
  have keep: "open_file_handles S' = open_file_handles S \<Longrightarrow> source_path S' = source_path S \<Longrightarrow> ?thesis"
    using fv by (simp add: files_validated_def)
  have same: "S' = S \<Longrightarrow> ?thesis" using fv by simp
  show ?thesis
  proof (cases "msg_type msg")
    case SFTP_OPEN
    with pm have s: "S' = fst (snd (handle_open S E msg tr))" by (simp add: process_message_def)
    from state_open [of S E msg tr] s have sp: "source_path S' = source_path S"
      and alt: "open_file_handles S' = open_file_handles S \<or>
        validate_path (source_path S) (msg_filename msg) \<and>
        (\<exists>k. open_file_handles S' = (open_file_handles S)(k \<mapsto> msg_filename msg))"
      by simp_all
    from alt show ?thesis
    proof
      assume "open_file_handles S' = open_file_handles S"
      then show ?thesis using sp by (rule keep)
    next
      assume "validate_path (source_path S) (msg_filename msg) \<and>
        (\<exists>k. open_file_handles S' = (open_file_handles S)(k \<mapsto> msg_filename msg))"
      then obtain k where v: "validate_path (source_path S) (msg_filename msg)"
        and e: "open_file_handles S' = (open_file_handles S)(k \<mapsto> msg_filename msg)"
        by blast
      have "validate_path (source_path S) name" if "name \<in> ran (open_file_handles S')" for name
        using that fv v unfolding e files_validated_def by (auto dest: ran_upd_cases)
      with sp show ?thesis by (simp add: files_validated_def)
    qed
  next
    case SFTP_CLOSE
    with pm have s: "S' = fst (snd (handle_close S E msg tr))" by (simp add: process_message_def)
    with state_close [of S E msg tr] have sp: "source_path S' = source_path S"
      and e: "open_file_handles S' = (open_file_handles S)(msg_handle msg := None)"
      by simp_all
    have "validate_path (source_path S) name" if "name \<in> ran (open_file_handles S')" for name
      using that fv unfolding e files_validated_def by (auto dest: ran_del_cases)
    with sp show ?thesis by (simp add: files_validated_def)
  next
    case SFTP_OPENDIR
    with pm have s: "S' = fst (snd (handle_opendir S E msg tr))" by (simp add: process_message_def)
    with state_opendir [of S E msg tr] show ?thesis by (intro keep) simp_all
  next
    case SFTP_READDIR
    with pm have s: "S' = fst (snd (handle_readdir K S E msg tr))" by (simp add: process_message_def)
    with state_readdir [of K S E msg tr] show ?thesis by (intro keep) simp_all
  next
    case SFTP_WRITE
    with pm show ?thesis by (intro same) (auto simp: process_message_def dest: state_write)
  qed (use pm fv in \<open>auto simp: process_message_def intro!: same dest: state_unchangedD\<close>)
qed











end
